theory Spec2Isabelle
  imports Complex_Main "HOL-Library.Multiset"
begin

chapter \<open>Bank-statement transactions: segmentation, rule-based enrichment, confidence fusion\<close>

text \<open>
  A shallow embedding of the statement parser (\<^verbatim>\<open>lib/parsers/icici.ts\<close>), its helpers
  (\<^verbatim>\<open>lib/parsers/helpers.ts\<close> and the earlier, lenient version of the same module) and
  the enrichment pipeline (\<^verbatim>\<open>MLTransactionPipeline\<close>).

  Conventions of the embedding.
  \<^item> JavaScript numbers are exact rationals. Binary rounding is not represented; the
    not-a-number value is \<open>None\<close> of an option type where a function can produce it.
  \<^item> Strings are lists of 8-bit characters and the text is taken to be ASCII: case
    conversion touches the letters A-Z and a-z only, white space is the six ASCII white
    space characters.
  \<^item> A thrown exception is the left injection of a sum type.
  \<^item> Regular expressions are values of the datatype \<open>regex\<close>, matched by a
    backtracking matcher that enumerates the matches in the priority order of ECMAScript.
\<close>

section \<open>Strings\<close>

definition upperAZ :: string where
  "upperAZ = ''ABCDEFGHIJKLMNOPQRSTUVWXYZ''"

definition lowerAZ :: string where
  "lowerAZ = ''abcdefghijklmnopqrstuvwxyz''"

definition digits09 :: string where
  "digits09 = ''0123456789''"

text \<open>The characters of the class \<^verbatim>\<open>\s\<close>: space, tab, line feed, vertical tab, form feed,
  carriage return.\<close>

definition spaceChars :: string where
  "spaceChars = [CHR '' '', CHR 0x09, CHR 0x0A, CHR 0x0B, CHR 0x0C, CHR 0x0D]"

definition toLowerChar :: "char \<Rightarrow> char" where
  "toLowerChar c = (case map_of (zip upperAZ lowerAZ) c of Some d \<Rightarrow> d | None \<Rightarrow> c)"

definition toUpperChar :: "char \<Rightarrow> char" where
  "toUpperChar c = (case map_of (zip lowerAZ upperAZ) c of Some d \<Rightarrow> d | None \<Rightarrow> c)"

definition toLowerCase :: "string \<Rightarrow> string" where
  "toLowerCase s = map toLowerChar s"

definition toUpperCase :: "string \<Rightarrow> string" where
  "toUpperCase s = map toUpperChar s"

definition isDigit :: "char \<Rightarrow> bool" where
  "isDigit c = (c \<in> set digits09)"

definition isSpace :: "char \<Rightarrow> bool" where
  "isSpace c = (c \<in> set spaceChars)"

definition isWordChar :: "char \<Rightarrow> bool" where
  "isWordChar c = (c \<in> set (upperAZ @ lowerAZ @ digits09 @ ''_''))"

definition trimStart :: "string \<Rightarrow> string" where
  "trimStart s = dropWhile isSpace s"

definition trim :: "string \<Rightarrow> string" where
  "trim s = rev (dropWhile isSpace (rev (dropWhile isSpace s)))"

primrec startsWith :: "string \<Rightarrow> string \<Rightarrow> bool" where
  "startsWith s [] = True"
| "startsWith s (k # ks) = (case s of [] \<Rightarrow> False | c # cs \<Rightarrow> c = k \<and> startsWith cs ks)"

text \<open>\<^verbatim>\<open>s.includes(k)\<close>: \<open>k\<close> occurs in \<open>s\<close> as a contiguous run.\<close>

primrec str_includes :: "string \<Rightarrow> string \<Rightarrow> bool" where
  "str_includes [] k = (k = [])"
| "str_includes (c # cs) k = (startsWith (c # cs) k \<or> str_includes cs k)"

text \<open>\<^verbatim>\<open>parts.join(sep)\<close>.\<close>

fun joinWith :: "string \<Rightarrow> string list \<Rightarrow> string" where
  "joinWith sep [] = []"
| "joinWith sep [p] = p"
| "joinWith sep (p # q # ps) = p @ sep @ joinWith sep (q # ps)"

text \<open>\<^verbatim>\<open>s.split(/[...]/)\<close> for a class of single characters: \<open>n\<close> separators give
  \<open>n + 1\<close> parts, empty ones included.\<close>

fun splitOn :: "(char \<Rightarrow> bool) \<Rightarrow> string \<Rightarrow> string list" where
  "splitOn p [] = [[]]"
| "splitOn p (c # cs) =
     (if p c then [] # splitOn p cs
      else (case splitOn p cs of [] \<Rightarrow> [[c]] | w # ws \<Rightarrow> (c # w) # ws))"

text \<open>The decimal rendering of an array index inside a template string. The first
  argument bounds the number of digits; \<open>n + 1\<close> is always enough.\<close>

fun showDigits :: "nat \<Rightarrow> nat \<Rightarrow> string" where
  "showDigits 0 n = []"
| "showDigits (Suc k) n =
     (if n < 10 then [digits09 ! n] else showDigits k (n div 10) @ [digits09 ! (n mod 10)])"

definition showNat :: "nat \<Rightarrow> string" where
  "showNat n = showDigits (Suc n) n"

section \<open>Numbers\<close>

text \<open>\<^verbatim>\<open>Math.round\<close> rounds half up; the conversion to an integer used by
  \<^verbatim>\<open>Date.UTC\<close> truncates towards zero; \<^verbatim>\<open>a % b\<close> takes the sign of \<open>a\<close>.\<close>

definition mathRound :: "rat \<Rightarrow> int" where
  "mathRound q = \<lfloor>q + 1 / 2\<rfloor>"

definition toInteger :: "rat \<Rightarrow> int" where
  "toInteger q = (if 0 \<le> q then \<lfloor>q\<rfloor> else \<lceil>q\<rceil>)"

definition jsRem :: "rat \<Rightarrow> rat \<Rightarrow> rat" where
  "jsRem a b = a - b * of_int (toInteger (a / b))"

text \<open>Truthiness of an optional number: defined and not zero.\<close>

definition truthyNum :: "rat option \<Rightarrow> bool" where
  "truthyNum a = (case a of None \<Rightarrow> False | Some v \<Rightarrow> v \<noteq> 0)"

text \<open>The value of a digit, of a digit string in a base, and of a mantissa scaled by a
  power of ten.\<close>

definition digitVal :: "char \<Rightarrow> int" where
  "digitVal c =
     (case map_of (zip ''0123456789abcdef'' [0, 1, 2, 3, 4, 5, 6, 7, 8, 9, 10, 11, 12, 13, 14, 15]) c of
        Some v \<Rightarrow> v
      | None \<Rightarrow> 0)"

definition readDigits :: "int \<Rightarrow> string \<Rightarrow> int" where
  "readDigits base s = foldl (\<lambda>acc c. acc * base + digitVal c) 0 s"

definition scale10 :: "int \<Rightarrow> int \<Rightarrow> rat" where
  "scale10 m e = (if 0 \<le> e then of_int m * 10 ^ nat e else of_int m / 10 ^ nat (- e))"

text \<open>
  The longest prefix of a string that is an unsigned decimal literal (digits, an optional
  fraction, an optional exponent), with its value and the text left over. \<open>None\<close> when
  there is no digit in the mantissa.
\<close>

definition readExponent :: "string \<Rightarrow> (int \<times> string) option" where
  "readExponent s =
     (case s of
        [] \<Rightarrow> None
      | e # t \<Rightarrow>
          if e = CHR ''e'' \<or> e = CHR ''E'' then
            (let neg = (case t of [] \<Rightarrow> False | g # _ \<Rightarrow> g = CHR ''-'');
                 t' = (case t of [] \<Rightarrow> [] | g # u \<Rightarrow> if g = CHR ''+'' \<or> g = CHR ''-'' then u else t);
                 ed = takeWhile isDigit t'
             in if ed = [] then None
                else Some ((if neg then - readDigits 10 ed else readDigits 10 ed),
                           dropWhile isDigit t'))
          else None)"

definition readDecimal :: "string \<Rightarrow> (rat \<times> string) option" where
  "readDecimal s =
     (let ip = takeWhile isDigit s;
          r1 = dropWhile isDigit s;
          fp = (case r1 of [] \<Rightarrow> [] | d # t \<Rightarrow> if d = CHR ''.'' then takeWhile isDigit t else []);
          r2 = (case r1 of [] \<Rightarrow> [] | d # t \<Rightarrow> if d = CHR ''.'' then dropWhile isDigit t else r1)
      in if ip = [] \<and> fp = [] then None
         else (case readExponent r2 of
                 None \<Rightarrow> Some (scale10 (readDigits 10 (ip @ fp)) (- int (length fp)), r2)
               | Some (e, r3) \<Rightarrow>
                   Some (scale10 (readDigits 10 (ip @ fp)) (e - int (length fp)), r3)))"

definition stripSign :: "string \<Rightarrow> bool \<times> string" where
  "stripSign s =
     (case s of
        [] \<Rightarrow> (False, [])
      | g # t \<Rightarrow> if g = CHR ''-'' then (True, t) else if g = CHR ''+'' then (False, t) else (False, s))"

text \<open>
  \<^verbatim>\<open>parseFloat\<close>: leading white space is skipped, then the longest decimal prefix is
  read. \<open>None\<close> stands for not-a-number and for the infinities.
\<close>

definition parseFloat :: "string \<Rightarrow> rat option" where
  "parseFloat s =
     (case stripSign (trimStart s) of
        (neg, t) \<Rightarrow>
          (case readDecimal t of
             None \<Rightarrow> None
           | Some (v, _) \<Rightarrow> Some (if neg then - v else v)))"

text \<open>A binary, octal or hexadecimal integer literal: its base and its digits.\<close>

definition radixOf :: "char \<Rightarrow> (int \<times> string) option" where
  "radixOf x =
     (if toLowerChar x = CHR ''x'' then Some (16, ''0123456789abcdef'')
      else if toLowerChar x = CHR ''o'' then Some (8, ''01234567'')
      else if toLowerChar x = CHR ''b'' then Some (2, ''01'')
      else None)"

definition readRadix :: "string \<Rightarrow> rat option" where
  "readRadix s =
     (case s of
        z # x # ds \<Rightarrow>
          (case radixOf x of
             None \<Rightarrow> None
           | Some (base, alphabet) \<Rightarrow>
               if z = CHR ''0'' \<and> ds \<noteq> [] \<and> list_all (\<lambda>d. toLowerChar d \<in> set alphabet) ds
               then Some (of_int (readDigits base (map toLowerChar ds)))
               else None)
      | _ \<Rightarrow> None)"

text \<open>
  \<^verbatim>\<open>Number(s)\<close> on a string: white space is trimmed, the empty string is zero, the
  whole of the rest must be a numeric literal. \<open>None\<close> stands for not-a-number and for
  the infinities (\<open>parseDate\<close> below rejects all of them alike).
\<close>

definition jsNumber :: "string \<Rightarrow> rat option" where
  "jsNumber s =
     (let t = trim s in
      if t = [] then Some 0
      else (case readRadix t of
              Some v \<Rightarrow> Some v
            | None \<Rightarrow>
                (case stripSign t of
                   (neg, u) \<Rightarrow>
                     (case readDecimal u of
                        None \<Rightarrow> None
                      | Some (v, r) \<Rightarrow> if r = [] then Some (if neg then - v else v) else None))))"

section \<open>Regular expressions\<close>

text \<open>
  The fragment of the ECMAScript pattern language the program uses. \<open>OneOf\<close> and
  \<open>NoneOf\<close> are the character classes \<^verbatim>\<open>[...]\<close> and \<^verbatim>\<open>[^...]\<close> with their members
  listed; \<open>Grp n\<close> is the \<open>n\<close>-th capturing group; \<open>Rep lo hi greedy\<close> is a quantifier
  with an optional upper bound; \<open>Bol\<close>, \<open>Eol\<close> and \<open>WordB\<close> are \<^verbatim>\<open>^\<close>, \<^verbatim>\<open>$\<close> and
  \<^verbatim>\<open>\b\<close>. No pattern of the program has a capturing group under a quantifier, so the
  reset of captures at each iteration is not represented.
\<close>

datatype regex =
    Eps
  | Lit char
  | Dot
  | OneOf string
  | NoneOf string
  | Cat regex regex
  | Alt regex regex
  | Grp nat regex
  | Rep nat "nat option" bool regex
  | Bol
  | Eol
  | WordB

text \<open>A pattern with its \<^verbatim>\<open>i\<close> flag.\<close>

type_synonym jsregex = "bool \<times> regex"

text \<open>A matcher state: the character before the position, the text from the position
  on, and the captures so far.\<close>

type_synonym mstate = "char option \<times> string \<times> (nat \<times> string) list"

definition inClass :: "bool \<Rightarrow> string \<Rightarrow> char \<Rightarrow> bool" where
  "inClass ci cs c = (if ci then toUpperChar c \<in> set (map toUpperChar cs) else c \<in> set cs)"

definition step1 :: "(char \<Rightarrow> bool) \<Rightarrow> mstate \<Rightarrow> mstate list" where
  "step1 p st =
     (case st of (pv, rest, caps) \<Rightarrow>
        (case rest of [] \<Rightarrow> [] | c # cs \<Rightarrow> if p c then [(Some c, cs, caps)] else []))"

text \<open>
  The quantifier. An iteration that consumes nothing once the lower bound is met is
  discarded, as ECMAScript does; every call either lowers the lower bound or shortens the
  text, so the first argument, set to one more than their sum, is never used up.
\<close>

fun rep :: "(mstate \<Rightarrow> mstate list) \<Rightarrow> bool \<Rightarrow> nat \<Rightarrow> nat \<Rightarrow> nat option \<Rightarrow> mstate \<Rightarrow> mstate list" where
  "rep f greedy 0 lo hi st = []"
| "rep f greedy (Suc k) lo hi st =
    (if hi = Some 0 then [st]
     else let more = concat (map (\<lambda>st'. if lo = 0 \<and> length (fst (snd st')) = length (fst (snd st)) then []
                                          else rep f greedy k (lo - 1) (map_option (\<lambda>m. m - 1) hi) st')
                                 (f st))
          in if 0 < lo then more else if greedy then more @ [st] else st # more)"

text \<open>All ways a pattern matches at a position, most preferred first.\<close>

fun mt :: "bool \<Rightarrow> regex \<Rightarrow> mstate \<Rightarrow> mstate list" where
  "mt ci Eps st = [st]"
| "mt ci (Lit c) st = step1 (\<lambda>x. if ci then toUpperChar x = toUpperChar c else x = c) st"
| "mt ci Dot st = step1 (\<lambda>x. x \<noteq> CHR 0x0A \<and> x \<noteq> CHR 0x0D) st"
| "mt ci (OneOf cs) st = step1 (inClass ci cs) st"
| "mt ci (NoneOf cs) st = step1 (\<lambda>x. \<not> inClass ci cs x) st"
| "mt ci (Cat r1 r2) st = concat (map (mt ci r2) (mt ci r1 st))"
| "mt ci (Alt r1 r2) st = mt ci r1 st @ mt ci r2 st"
| "mt ci (Grp n r) st =
     map (\<lambda>(pv, rest, caps).
            (pv, rest, (n, take (length (fst (snd st)) - length rest) (fst (snd st))) # caps))
         (mt ci r st)"
| "mt ci (Rep lo hi greedy r) st =
     rep (mt ci r) greedy (Suc (lo + length (fst (snd st)))) lo hi st"
| "mt ci Bol st = (if fst st = None then [st] else [])"
| "mt ci Eol st = (if fst (snd st) = [] then [st] else [])"
| "mt ci WordB st =
     (let a = (case fst st of None \<Rightarrow> False | Some c \<Rightarrow> isWordChar c);
          b = (case fst (snd st) of [] \<Rightarrow> False | c # _ \<Rightarrow> isWordChar c)
      in if a \<noteq> b then [st] else [])"

text \<open>A match: the text before it, the matched text, the text after it, the groups.\<close>

record rmatch =
  m_pre :: string
  m_text :: string
  m_post :: string
  m_caps :: "(nat \<times> string) list"

definition mkMatch :: "string \<Rightarrow> string \<Rightarrow> mstate \<Rightarrow> rmatch" where
  "mkMatch pre rest st =
     (case st of (pv, rest', caps) \<Rightarrow>
        \<lparr>m_pre = rev pre, m_text = take (length rest - length rest') rest,
         m_post = rest', m_caps = caps\<rparr>)"

definition lastChar :: "string \<Rightarrow> char option" where
  "lastChar pre = (case pre of [] \<Rightarrow> None | c # _ \<Rightarrow> Some c)"

text \<open>The leftmost match at or after a position; the text before the position is kept
  reversed.\<close>

fun exec_from :: "bool \<Rightarrow> regex \<Rightarrow> string \<Rightarrow> string \<Rightarrow> rmatch option" where
  "exec_from ci r pre [] =
     (case mt ci r (lastChar pre, [], []) of
        [] \<Rightarrow> None
      | st # _ \<Rightarrow> Some (mkMatch pre [] st))"
| "exec_from ci r pre (c # cs) =
     (case mt ci r (lastChar pre, c # cs, []) of
        [] \<Rightarrow> exec_from ci r (c # pre) cs
      | st # _ \<Rightarrow> Some (mkMatch pre (c # cs) st))"

text \<open>\<^verbatim>\<open>s.match(re)\<close> without the \<^verbatim>\<open>g\<close> flag, \<^verbatim>\<open>re.test(s)\<close>, and a group of a match
  (\<open>None\<close> where JavaScript has \<^verbatim>\<open>undefined\<close>).\<close>

definition rx_exec :: "jsregex \<Rightarrow> string \<Rightarrow> rmatch option" where
  "rx_exec re s = exec_from (fst re) (snd re) [] s"

definition rx_test :: "jsregex \<Rightarrow> string \<Rightarrow> bool" where
  "rx_test re s = (rx_exec re s \<noteq> None)"

definition rx_group :: "rmatch \<Rightarrow> nat \<Rightarrow> string option" where
  "rx_group m n = map_of (m_caps m) n"

text \<open>\<^verbatim>\<open>s.replace(re, rp)\<close> with the \<^verbatim>\<open>g\<close> flag and a replacement without \<^verbatim>\<open>$\<close>: every
  match, left to right, none overlapping; after an empty match one character is copied.\<close>

fun replace_loop :: "nat \<Rightarrow> bool \<Rightarrow> regex \<Rightarrow> string \<Rightarrow> string \<Rightarrow> string \<Rightarrow> string" where
  "replace_loop 0 ci r rp pre s = s"
| "replace_loop (Suc k) ci r rp pre s =
     (case exec_from ci r pre s of
        None \<Rightarrow> s
      | Some m \<Rightarrow>
          (let skipped = drop (length pre) (m_pre m) in
           if m_text m = [] then
             (case m_post m of
                [] \<Rightarrow> skipped @ rp
              | c # cs \<Rightarrow> skipped @ rp @ [c] @ replace_loop k ci r rp (c # rev (m_pre m)) cs)
           else skipped @ rp @ replace_loop k ci r rp (rev (m_text m) @ rev (m_pre m)) (m_post m)))"

definition rx_replace_all :: "jsregex \<Rightarrow> string \<Rightarrow> string \<Rightarrow> string" where
  "rx_replace_all re rp s = replace_loop (Suc (length s)) (fst re) (snd re) rp [] s"

text \<open>The same without the \<^verbatim>\<open>g\<close> flag: the first match only.\<close>

definition rx_replace :: "jsregex \<Rightarrow> string \<Rightarrow> string \<Rightarrow> string" where
  "rx_replace re rp s =
     (case rx_exec re s of None \<Rightarrow> s | Some m \<Rightarrow> m_pre m @ rp @ m_post m)"

text \<open>\<^verbatim>\<open>s.match(re) || []\<close> with the \<^verbatim>\<open>g\<close> flag: the texts of all matches, left to right,
  none overlapping; the search resumes one character after an empty match.\<close>

fun match_loop :: "nat \<Rightarrow> bool \<Rightarrow> regex \<Rightarrow> string \<Rightarrow> string \<Rightarrow> string list" where
  "match_loop 0 ci r pre s = []"
| "match_loop (Suc k) ci r pre s =
     (case exec_from ci r pre s of
        None \<Rightarrow> []
      | Some m \<Rightarrow>
          if m_text m = [] then
            (case m_post m of
               [] \<Rightarrow> [[]]
             | c # cs \<Rightarrow> [] # match_loop k ci r (c # rev (m_pre m)) cs)
          else m_text m # match_loop k ci r (rev (m_text m) @ rev (m_pre m)) (m_post m))"

definition rx_match_all :: "jsregex \<Rightarrow> string \<Rightarrow> string list" where
  "rx_match_all re s = match_loop (Suc (length s)) (fst re) (snd re) [] s"

text \<open>Shorthands for writing patterns down.\<close>

definition rx_str :: "string \<Rightarrow> regex" where
  "rx_str s = foldr (\<lambda>c r. Cat (Lit c) r) s Eps"

definition rx_seq :: "regex list \<Rightarrow> regex" where
  "rx_seq rs = foldr Cat rs Eps"

definition rx_alts :: "regex list \<Rightarrow> regex" where
  "rx_alts rs = (case rs of [] \<Rightarrow> Eps | r # rest \<Rightarrow> foldl Alt r rest)"

definition rx_star :: "regex \<Rightarrow> regex" where
  "rx_star r = Rep 0 None True r"

definition rx_plus :: "regex \<Rightarrow> regex" where
  "rx_plus r = Rep 1 None True r"

definition rx_opt :: "regex \<Rightarrow> regex" where
  "rx_opt r = Rep 0 (Some 1) True r"

definition rx_times :: "nat \<Rightarrow> regex \<Rightarrow> regex" where
  "rx_times n r = Rep n (Some n) True r"

definition rx_atleast :: "nat \<Rightarrow> regex \<Rightarrow> regex" where
  "rx_atleast n r = Rep n None True r"

definition rx_digit :: regex where
  "rx_digit = OneOf digits09"

definition rx_space :: regex where
  "rx_space = OneOf spaceChars"

text \<open>A matcher is shrinking when no state it returns has more text left than the state
  it started from.\<close>

definition shrinking :: "(mstate \<Rightarrow> mstate list) \<Rightarrow> bool" where
  "shrinking f = (\<forall>st st'. st' \<in> set (f st) \<longrightarrow> length (fst (snd st')) \<le> length (fst (snd st)))"

section \<open>The helpers module (\<^verbatim>\<open>lib/parsers/helpers.ts\<close>)\<close>

subsection \<open>Merchant extraction\<close>

text \<open>The current module never reads the optional \<^verbatim>\<open>cleanup\<close> member of a pattern, and
  none of its patterns has one.\<close>

record MerchantPattern =
  mp_regex :: jsregex
  mp_extractGroup :: nat

definition UPI_MERCHANT_PATTERNS :: "MerchantPattern list" where
  "UPI_MERCHANT_PATTERNS =
     [\<lparr>mp_regex = (True, rx_seq [rx_str ''UPI/'', Grp 1 (rx_plus (NoneOf ''/'')),
                                   rx_opt (rx_seq [Lit CHR ''/'', rx_star Dot]), Eol]),
       mp_extractGroup = 1\<rparr>,
      \<lparr>mp_regex = (True, rx_seq [rx_str ''IMPS/'', Grp 1 (rx_plus (NoneOf ''/'')), Lit CHR ''/'',
                                   Grp 2 (rx_plus (NoneOf ''/''))]),
       mp_extractGroup = 2\<rparr>,
      \<lparr>mp_regex = (True, rx_seq [rx_str ''NEFT/'', Grp 1 (rx_plus (NoneOf ''/'')), Lit CHR ''/'',
                                   Grp 2 (rx_plus (NoneOf ''/''))]),
       mp_extractGroup = 2\<rparr>,
      \<lparr>mp_regex = (True, rx_seq [rx_str ''RTGS/'', Grp 1 (rx_plus (NoneOf ''/'')), Lit CHR ''/'',
                                   Grp 2 (rx_plus (NoneOf ''/''))]),
       mp_extractGroup = 2\<rparr>,
      \<lparr>mp_regex = (True, rx_seq [rx_str ''BIL/'', Grp 1 (rx_plus (NoneOf ''/'')),
                                   rx_opt (rx_seq [Lit CHR ''/'', rx_star Dot]), Eol]),
       mp_extractGroup = 1\<rparr>]"

definition MERCHANT_NORMALIZATIONS :: "(string \<times> string) list" where
  "MERCHANT_NORMALIZATIONS =
     [(''SWIGGY'', ''Swiggy''),
      (''SWIGGYINST'', ''Swiggy Instamart''),
      (''SWIGGYINSTAMAR'', ''Swiggy Instamart''),
      (''ZOMATO'', ''Zomato''),
      (''NETFLIX'', ''Netflix''),
      (''NETFLIX CO'', ''Netflix''),
      (''AMAZON'', ''Amazon''),
      (''FLIPKART'', ''Flipkart''),
      (''MYNTRA'', ''Myntra''),
      (''AJIO'', ''Ajio''),
      (''PAYTM'', ''Paytm''),
      (''PHONEPE'', ''PhonePe''),
      (''GPAY'', ''Google Pay''),
      (''GOOGLE IND'', ''Google''),
      (''GOOGLE INDIA'', ''Google''),
      (''UBER'', ''Uber''),
      (''OLA'', ''Ola''),
      (''PVR INOX'', ''PVR Inox''),
      (''PVR INOX L'', ''PVR Inox'')]"

definition normalizeMerchantName :: "string \<Rightarrow> (string \<times> string) list \<Rightarrow> string" where
  "normalizeMerchantName name normalizations =
     (case map_of normalizations (toUpperCase name) of
        Some v \<Rightarrow> if v \<noteq> [] then v else trim name
      | None \<Rightarrow> trim name)"

primrec tryPatterns :: "string \<Rightarrow> MerchantPattern list \<Rightarrow> string" where
  "tryPatterns cleanDesc [] = ''Unknown''"
| "tryPatterns cleanDesc (pattern # rest) =
     (case rx_exec (mp_regex pattern) cleanDesc of
        None \<Rightarrow> tryPatterns cleanDesc rest
      | Some m \<Rightarrow>
          (case rx_group m (mp_extractGroup pattern) of
             None \<Rightarrow> tryPatterns cleanDesc rest
           | Some g \<Rightarrow>
               if g = [] then tryPatterns cleanDesc rest
               else (let merchant = trim g in
                     if merchant \<noteq> [] \<and> 2 < length merchant
                     then normalizeMerchantName merchant MERCHANT_NORMALIZATIONS
                     else tryPatterns cleanDesc rest)))"

definition extractMerchant :: "string \<Rightarrow> MerchantPattern list \<Rightarrow> string" where
  "extractMerchant description patterns = tryPatterns (trim description) patterns"

subsection \<open>Categorisation\<close>

record AmountThreshold =
  th_min :: "rat option"
  th_max :: "rat option"

record CategoryRule =
  r_keywords :: "string list"
  r_merchantKeywords :: "string list option"
  r_category :: string
  r_subcategory :: "string option"
  r_isRecurring :: "bool option"
  r_amountThreshold :: "AmountThreshold option"

definition DEFAULT_CATEGORY_RULES :: "CategoryRule list" where
  "DEFAULT_CATEGORY_RULES =
     [\<lparr>r_keywords = [], r_merchantKeywords = Some [''swiggy'', ''swiggy instamart'', ''zomato''],
       r_category = ''Food & Dining'', r_subcategory = Some ''Food Delivery'',
       r_isRecurring = Some False, r_amountThreshold = None\<rparr>,
      \<lparr>r_keywords = [], r_merchantKeywords = Some [''netflix''],
       r_category = ''Entertainment'', r_subcategory = Some ''Streaming Services'',
       r_isRecurring = Some True, r_amountThreshold = None\<rparr>,
      \<lparr>r_keywords = [], r_merchantKeywords = Some [''pvr inox''],
       r_category = ''Entertainment'', r_subcategory = Some ''Movies'',
       r_isRecurring = Some False, r_amountThreshold = None\<rparr>,
      \<lparr>r_keywords = [], r_merchantKeywords = Some [''amazon'', ''flipkart'', ''myntra'', ''ajio''],
       r_category = ''Shopping'', r_subcategory = Some ''Online Shopping'',
       r_isRecurring = Some False, r_amountThreshold = None\<rparr>,
      \<lparr>r_keywords = [], r_merchantKeywords = Some [''uber'', ''ola''],
       r_category = ''Transportation'', r_subcategory = None,
       r_isRecurring = Some False, r_amountThreshold = None\<rparr>,
      \<lparr>r_keywords = [], r_merchantKeywords = Some [''paytm'', ''phonepe'', ''google pay''],
       r_category = ''Transfer'', r_subcategory = Some ''Digital Wallet'',
       r_isRecurring = Some False, r_amountThreshold = None\<rparr>,
      \<lparr>r_keywords = [''atm withdrawal'', ''cash withdrawal''], r_merchantKeywords = Some [],
       r_category = ''Cash & ATM'', r_subcategory = None,
       r_isRecurring = Some False, r_amountThreshold = None\<rparr>,
      \<lparr>r_keywords = [''emi'', ''loan emi'', ''personal loan''], r_merchantKeywords = Some [],
       r_category = ''Finance'', r_subcategory = Some ''Loans & EMI'',
       r_isRecurring = Some True, r_amountThreshold = None\<rparr>]"

record Categorization =
  c_category :: string
  c_subcategory :: "string option"
  c_paymentMethod :: string
  c_isRecurring :: bool

definition determinePaymentMethod :: "string \<Rightarrow> string" where
  "determinePaymentMethod description =
     (let desc = toLowerCase description in
      if str_includes desc ''bhqr'' \<or> str_includes desc ''qr'' then ''QR Code''
      else if str_includes desc ''gpay'' then ''Google Pay''
      else if str_includes desc ''paytm'' then ''Paytm''
      else if str_includes desc ''phonepe'' then ''PhonePe''
      else if str_includes desc ''upi'' then ''UPI''
      else if str_includes desc ''card'' then ''Card''
      else if str_includes desc ''neft'' \<or> str_includes desc ''rtgs'' then ''Bank Transfer''
      else if str_includes desc ''bil/'' then ''Bill Payment''
      else if str_includes desc ''imps'' then ''IMPS''
      else ''UPI'')"

text \<open>\<^verbatim>\<open>!t || ((!t.min || amount >= t.min) && (!t.max || amount <= t.max))\<close>: a bound that is
  absent or zero does not constrain.\<close>

definition matchesAmount :: "CategoryRule \<Rightarrow> rat \<Rightarrow> bool" where
  "matchesAmount rule amount =
     (case r_amountThreshold rule of
        None \<Rightarrow> True
      | Some t \<Rightarrow>
          (\<not> truthyNum (th_min t) \<or> (case th_min t of None \<Rightarrow> False | Some m \<Rightarrow> m \<le> amount)) \<and>
          (\<not> truthyNum (th_max t) \<or> (case th_max t of None \<Rightarrow> False | Some m \<Rightarrow> amount \<le> m)))"

definition matchesMerchantKeywords :: "CategoryRule \<Rightarrow> string \<Rightarrow> bool" where
  "matchesMerchantKeywords rule merch =
     (case r_merchantKeywords rule of
        None \<Rightarrow> False
      | Some ks \<Rightarrow> list_ex (\<lambda>keyword. merch = toLowerCase keyword \<or> str_includes merch (toLowerCase keyword)) ks)"

definition matchesKeywords :: "CategoryRule \<Rightarrow> string \<Rightarrow> bool" where
  "matchesKeywords rule desc = list_ex (\<lambda>keyword. str_includes desc (toLowerCase keyword)) (r_keywords rule)"

definition ruleMatches :: "CategoryRule \<Rightarrow> string \<Rightarrow> string \<Rightarrow> rat \<Rightarrow> bool" where
  "ruleMatches rule description merchant amount =
     ((matchesMerchantKeywords rule (toLowerCase merchant) \<or> matchesKeywords rule (toLowerCase description))
      \<and> matchesAmount rule amount)"

primrec categorizeTransaction :: "string \<Rightarrow> string \<Rightarrow> rat \<Rightarrow> CategoryRule list \<Rightarrow> Categorization" where
  "categorizeTransaction description merchant amount [] =
     \<lparr>c_category = ''Others'', c_subcategory = None,
      c_paymentMethod = determinePaymentMethod description, c_isRecurring = False\<rparr>"
| "categorizeTransaction description merchant amount (rule # rules) =
     (if ruleMatches rule description merchant amount
      then \<lparr>c_category = r_category rule, c_subcategory = r_subcategory rule,
            c_paymentMethod = determinePaymentMethod description,
            c_isRecurring = (case r_isRecurring rule of None \<Rightarrow> False | Some b \<Rightarrow> b)\<rparr>
      else categorizeTransaction description merchant amount rules)"

subsection \<open>Notes, dates, descriptions\<close>

definition extractNotes :: "string \<Rightarrow> string option" where
  "extractNotes description =
     (case rx_exec (True, Grp 1 (rx_seq [rx_str ''ICI'', rx_plus (OneOf ''abcdef0123456789'')])) description of
        Some m \<Rightarrow> Some (''Transaction ID: '' @ (case rx_group m 1 of None \<Rightarrow> ''undefined'' | Some g \<Rightarrow> g))
      | None \<Rightarrow>
          (case rx_exec (False, Grp 1 (rx_seq [WordB, rx_atleast 10 (OneOf (upperAZ @ digits09)), WordB])) description of
             Some m \<Rightarrow> Some (''Reference: '' @ (case rx_group m 1 of None \<Rightarrow> ''undefined'' | Some g \<Rightarrow> g))
           | None \<Rightarrow> None))"

text \<open>
  A \<^verbatim>\<open>Date\<close> is read through its UTC getters only, so it is the record of what they
  return; the month is the index 0 to 11.
\<close>

record jsdate =
  utcFullYear :: int
  utcMonth :: int
  utcDate :: int
  utcHours :: int
  utcMinutes :: int
  utcSeconds :: int
  utcMilliseconds :: int

definition isLeapYear :: "int \<Rightarrow> bool" where
  "isLeapYear y = (y mod 4 = 0 \<and> (y mod 100 \<noteq> 0 \<or> y mod 400 = 0))"

definition daysInMonth :: "int \<Rightarrow> int \<Rightarrow> int" where
  "daysInMonth y m =
     (if m = 1 then (if isLeapYear y then 29 else 28)
      else if m = 3 \<or> m = 5 \<or> m = 8 \<or> m = 10 then 30
      else 31)"

text \<open>
  \<^verbatim>\<open>new Date(Date.UTC(y, m, d, 12, 0, 0, 0))\<close> for the arguments \<open>parseDate\<close> passes: a year
  from 1900, a month index from 0 to 11, a day from 1 to 31. A day past the end of the
  month is carried into the next month (at most three days, so one carry is enough, and
  never out of December); a time beyond 8.64e15 milliseconds, whose last noon is that of
  12 September 275760, gives an invalid date, here \<open>None\<close>.
\<close>

definition utcNoon :: "int \<Rightarrow> int \<Rightarrow> int \<Rightarrow> jsdate option" where
  "utcNoon y m d =
     (let m' = (if d \<le> daysInMonth y m then m else m + 1);
          d' = (if d \<le> daysInMonth y m then d else d - daysInMonth y m)
      in if y < 275760 \<or> (y = 275760 \<and> (m' < 8 \<or> (m' = 8 \<and> d' \<le> 12)))
         then Some \<lparr>utcFullYear = y, utcMonth = m', utcDate = d', utcHours = 12,
                     utcMinutes = 0, utcSeconds = 0, utcMilliseconds = 0\<rparr>
         else None)"

datatype error = InvalidDateFormat string

text \<open>Every error raised inside \<open>parseDate\<close> is caught there and thrown again as
  \<^verbatim>\<open>Invalid date format: ...\<close>.\<close>

definition parseDate :: "string \<Rightarrow> error + jsdate" where
  "parseDate dateStr =
     (case map jsNumber (splitOn (\<lambda>c. c = CHR ''-'' \<or> c = CHR ''/'') dateStr) of
        [Some day, Some month, Some year] \<Rightarrow>
          if day = 0 \<or> month = 0 \<or> year = 0 \<or> day < 1 \<or> 31 < day \<or> month < 1 \<or> 12 < month \<or> year < 1900
          then Inl (InvalidDateFormat dateStr)
          else (case utcNoon (toInteger year) (toInteger (month - 1)) (toInteger day) of
                  None \<Rightarrow> Inl (InvalidDateFormat dateStr)
                | Some date \<Rightarrow>
                    if of_int (utcDate date) \<noteq> day \<or> of_int (utcMonth date) \<noteq> month - 1
                       \<or> of_int (utcFullYear date) \<noteq> year
                    then Inl (InvalidDateFormat dateStr)
                    else Inr date)
      | _ \<Rightarrow> Inl (InvalidDateFormat dateStr))"

definition cleanDescription :: "string \<Rightarrow> string" where
  "cleanDescription description =
     trim
    (rx_replace_all (False, rx_plus rx_space) '' ''
    (rx_replace (False, rx_seq [rx_plus (Lit CHR ''/''), Eol]) []
    (rx_replace_all (True, rx_seq [rx_str ''signature.'', rx_star rx_space, rx_str ''Page'',
                                   rx_star rx_space, rx_plus rx_digit]) []
    (rx_replace_all (True, rx_seq [rx_star rx_space, rx_str ''Page '', rx_plus rx_digit,
                                   rx_star rx_space]) []
    (rx_replace_all (True, rx_seq [rx_str ''Hence'', rx_opt (Lit CHR '',''), rx_star rx_space,
                                   rx_str ''it does not require any signature'',
                                   rx_opt (Lit CHR ''.''), rx_star rx_space]) []
    (rx_replace_all (True, rx_seq [rx_str ''This is a system-generated statement'',
                                   rx_opt (Lit CHR ''.''), rx_star rx_space]) []
       description))))))"

definition systemPatterns :: "jsregex list" where
  "systemPatterns =
     [(True, rx_seq [Bol, rx_str ''This is a system-generated'']),
      (True, rx_str ''Hence, it does not require''),
      (True, rx_str ''any signature''),
      (True, rx_seq [rx_str ''Page '', rx_plus rx_digit, Eol]),
      (True, rx_seq [rx_str ''signature.'', rx_star rx_space, rx_str ''Page'']),
      (True, rx_str ''Account Number''),
      (True, rx_str ''Transaction date''),
      (True, rx_seq [rx_str ''Date'', rx_star rx_space, rx_str ''Description'', rx_star rx_space,
                     rx_str ''Amount'', rx_star rx_space, rx_str ''Type'']),
      (True, rx_seq [rx_str ''From '', rx_times 2 rx_digit, Lit CHR ''/'', rx_times 2 rx_digit,
                     Lit CHR ''/'', rx_times 4 rx_digit, rx_str '' To '', rx_times 2 rx_digit,
                     Lit CHR ''/'', rx_times 2 rx_digit, Lit CHR ''/'', rx_times 4 rx_digit])]"

definition isSystemText :: "string \<Rightarrow> bool" where
  "isSystemText text = list_ex (\<lambda>pattern. rx_test pattern text) systemPatterns"

subsection \<open>Tags\<close>

text \<open>The tags are collected in a \<^verbatim>\<open>Set\<close>, which keeps its elements in insertion order
  and ignores a second insertion; \<^verbatim>\<open>Array.from\<close> lists them in that order. Each line of
  the source that adds a tag under a condition is one pair of the list folded over.\<close>

definition setAdd :: "string list \<Rightarrow> string \<Rightarrow> string list" where
  "setAdd xs x = (if x \<in> set xs then xs else xs @ [x])"

definition addTags :: "string list \<Rightarrow> (bool \<times> string) list \<Rightarrow> string list" where
  "addTags tags adds = foldl (\<lambda>acc (b, t). if b then setAdd acc t else acc) tags adds"

definition generateTags :: "string \<Rightarrow> string \<Rightarrow> string \<Rightarrow> rat option \<Rightarrow> string list" where
  "generateTags description merchant category amount =
     (let desc = toLowerCase description;
          tags = addTags []
            [(True, rx_replace_all (False, OneOf (spaceChars @ ''&'')) ''-'' (toLowerCase category)),
             (str_includes desc ''upi'', ''upi''),
             (str_includes desc ''neft'', ''neft''),
             (str_includes desc ''imps'', ''imps''),
             (str_includes desc ''rtgs'', ''rtgs''),
             (str_includes desc ''atm'', ''atm''),
             (str_includes desc ''hdfc'', ''hdfc-bank''),
             (str_includes desc ''icici'', ''icici-bank''),
             (str_includes desc ''axis'', ''axis-bank''),
             (str_includes desc ''sbi'', ''sbi-bank''),
             (str_includes desc ''withdrawal'', ''withdrawal''),
             (str_includes desc ''transfer'', ''transfer''),
             (str_includes desc ''payment'', ''payment'')];
          tags = (if truthyNum amount
                  then (case amount of
                          None \<Rightarrow> tags
                        | Some a \<Rightarrow>
                            addTags tags
                              [(10000 \<le> a, ''high-amount''),
                               (a < 100, ''small-amount''),
                               (jsRem a 100 = 0 \<and> 1000 \<le> a, ''round-amount'')])
                  else tags)
      in filter (\<lambda>tag. 0 < length tag) tags)"

subsection \<open>Conversion to the final transaction\<close>

datatype tx_type = DR | CR

datatype tx_kind = Debit | Credit

record ParsedTransaction =
  p_date :: string
  p_description :: string
  p_amount :: rat
  p_type :: tx_type

text \<open>The members \<^verbatim>\<open>createdAt\<close> and \<^verbatim>\<open>updatedAt\<close> hold the wall-clock time of the
  conversion and are left out.\<close>

record Transaction =
  t_id :: string
  t_date :: jsdate
  t_amount :: rat
  t_description :: string
  t_type :: tx_kind
  t_category :: string
  t_subcategory :: "string option"
  t_merchant :: string
  t_account :: string
  t_paymentMethod :: string
  t_isRecurring :: bool
  t_tags :: "string list"
  t_notes :: "string option"
  t_isVerified :: bool

text \<open>The callback of \<^verbatim>\<open>parsedTransactions.map\<close>; \<open>parseDate\<close> is the one call in it
  that can throw.\<close>

definition convertOne :: "string \<Rightarrow> string \<Rightarrow> ParsedTransaction \<Rightarrow> nat \<Rightarrow> error + Transaction" where
  "convertOne accountNumber bankName tx index =
     (let merchant = extractMerchant (p_description tx) UPI_MERCHANT_PATTERNS;
          categorization = categorizeTransaction (p_description tx) merchant (p_amount tx) DEFAULT_CATEGORY_RULES;
          dateKey = rx_replace_all (False, OneOf ''-/'') [] (p_date tx);
          ident = toLowerCase bankName @ ''_'' @ accountNumber @ ''_'' @ dateKey @ ''_'' @ showNat index
      in case parseDate (p_date tx) of
           Inl e \<Rightarrow> Inl e
         | Inr date \<Rightarrow>
             Inr \<lparr>t_id = ident,
                  t_date = date,
                  t_amount = p_amount tx,
                  t_description = p_description tx,
                  t_type = (if p_type tx = DR then Debit else Credit),
                  t_category = c_category categorization,
                  t_subcategory = c_subcategory categorization,
                  t_merchant = merchant,
                  t_account = accountNumber,
                  t_paymentMethod = c_paymentMethod categorization,
                  t_isRecurring = c_isRecurring categorization,
                  t_tags = generateTags (p_description tx) merchant (c_category categorization) (Some (p_amount tx)),
                  t_notes = extractNotes (p_description tx),
                  t_isVerified = False\<rparr>)"

text \<open>\<^verbatim>\<open>Array.prototype.map\<close> with the index; the first callback that throws ends the
  call with its error.\<close>

fun mapIndexed :: "(ParsedTransaction \<Rightarrow> nat \<Rightarrow> error + Transaction) \<Rightarrow> nat \<Rightarrow> ParsedTransaction list \<Rightarrow> error + Transaction list" where
  "mapIndexed f i [] = Inr []"
| "mapIndexed f i (tx # rest) =
     (case f tx i of
        Inl e \<Rightarrow> Inl e
      | Inr t \<Rightarrow> (case mapIndexed f (Suc i) rest of Inl e \<Rightarrow> Inl e | Inr ts \<Rightarrow> Inr (t # ts)))"

definition convertToTransactionInterface :: "ParsedTransaction list \<Rightarrow> string \<Rightarrow> string \<Rightarrow> error + Transaction list" where
  "convertToTransactionInterface parsedTransactions accountNumber bankName =
     mapIndexed (convertOne accountNumber bankName) 0 parsedTransactions"


section \<open>The earlier, lenient helpers module\<close>

text \<open>
  The repository also holds the earlier version of the helpers module, with description
  keywords in its rules, a personal-transfer heuristic and inferred tags. Its functions
  carry the suffix \<open>_lenient\<close>.
\<close>

definition DEFAULT_CATEGORY_RULES_lenient :: "CategoryRule list" where
  "DEFAULT_CATEGORY_RULES_lenient =
     [\<lparr>r_keywords = [''pvr'', ''inox'', ''cinema'', ''movie'', ''theatre'', ''theater''],
       r_merchantKeywords = Some [''pvr inox'', ''pvr'', ''inox''],
       r_category = ''Entertainment'', r_subcategory = Some ''Movies'',
       r_isRecurring = Some False, r_amountThreshold = None\<rparr>,
      \<lparr>r_keywords = [''netflix'', ''prime'', ''spotify'', ''youtube'', ''hotstar'', ''zee5'', ''voot''],
       r_merchantKeywords = Some [''netflix''],
       r_category = ''Entertainment'', r_subcategory = Some ''Streaming Services'',
       r_isRecurring = Some True, r_amountThreshold = None\<rparr>,
      \<lparr>r_keywords = [''swiggy'', ''zomato'', ''uber eats'', ''food delivery'', ''instamart''],
       r_merchantKeywords = Some [''swiggy'', ''swiggy instamart'', ''zomato''],
       r_category = ''Food & Dining'', r_subcategory = Some ''Food Delivery'',
       r_isRecurring = Some False, r_amountThreshold = None\<rparr>,
      \<lparr>r_keywords = [''restaurant'', ''cafe'', ''dining'', ''hotel'', ''bar'', ''rest'', ''anbarasi'',
                      ''lords'', ''malabar'', ''baawrchi''],
       r_merchantKeywords = Some [''lords restaurant'', ''anbarasi restaurant'', ''d cafe'',
                                  ''malabar restaurant'', ''baawrchi''],
       r_category = ''Food & Dining'', r_subcategory = Some ''Restaurant'',
       r_isRecurring = Some False, r_amountThreshold = None\<rparr>,
      \<lparr>r_keywords = [''supermarket'', ''grocery'', ''haven'', ''lulu'', ''hypermarket''],
       r_merchantKeywords = Some [''the haven supermarket'', ''lulu hypermarket''],
       r_category = ''Shopping'', r_subcategory = Some ''Groceries'',
       r_isRecurring = Some False, r_amountThreshold = None\<rparr>,
      \<lparr>r_keywords = [''amazon'', ''flipkart'', ''myntra'', ''ajio'', ''shopping'', ''mall'', ''store'',
                      ''looks''],
       r_merchantKeywords = Some [''my looks''],
       r_category = ''Shopping'', r_subcategory = Some ''Online Shopping'',
       r_isRecurring = Some False, r_amountThreshold = None\<rparr>,
      \<lparr>r_keywords = [''uber'', ''ola'', ''rapido'', ''taxi'', ''auto'', ''metro'', ''bus'', ''train'',
                      ''ixigo''],
       r_merchantKeywords = Some [''ixigo''],
       r_category = ''Transportation'', r_subcategory = Some ''Travel Booking'',
       r_isRecurring = Some False, r_amountThreshold = None\<rparr>,
      \<lparr>r_keywords = [''pest control'', ''goodcare'', ''skynet''],
       r_merchantKeywords = Some [''good care pest control'', ''skynet solutions''],
       r_category = ''Home & Services'', r_subcategory = Some ''Pest Control'',
       r_isRecurring = Some False, r_amountThreshold = None\<rparr>,
      \<lparr>r_keywords = [''electricity'', ''water'', ''gas'', ''internet'', ''mobile'', ''phone'',
                      ''broadband''],
       r_merchantKeywords = None,
       r_category = ''Utilities'', r_subcategory = Some ''Bills'',
       r_isRecurring = Some True, r_amountThreshold = None\<rparr>,
      \<lparr>r_keywords = [''medical'', ''hospital'', ''pharmacy'', ''doctor'', ''clinic'', ''health''],
       r_merchantKeywords = None,
       r_category = ''Healthcare'', r_subcategory = None,
       r_isRecurring = Some False, r_amountThreshold = None\<rparr>,
      \<lparr>r_keywords = [''petrol'', ''diesel'', ''fuel'', ''hp'', ''bharat petroleum'', ''indian oil''],
       r_merchantKeywords = None,
       r_category = ''Transportation'', r_subcategory = Some ''Fuel'',
       r_isRecurring = Some False, r_amountThreshold = None\<rparr>,
      \<lparr>r_keywords = [''parking'', ''parkingboo''],
       r_merchantKeywords = Some [''parking booking''],
       r_category = ''Transportation'', r_subcategory = Some ''Parking'',
       r_isRecurring = Some False, r_amountThreshold = None\<rparr>,
      \<lparr>r_keywords = [''atm'', ''cash'', ''withdrawal''],
       r_merchantKeywords = None,
       r_category = ''Cash & ATM'', r_subcategory = None,
       r_isRecurring = Some False, r_amountThreshold = None\<rparr>,
      \<lparr>r_keywords = [''loan'', ''emi'', ''credit card'', ''personal loan''],
       r_merchantKeywords = None,
       r_category = ''Finance'', r_subcategory = Some ''Loans & EMI'',
       r_isRecurring = Some True, r_amountThreshold = None\<rparr>]"

definition ruleMatches_lenient :: "CategoryRule \<Rightarrow> string \<Rightarrow> string \<Rightarrow> rat \<Rightarrow> bool" where
  "ruleMatches_lenient rule description merchant amount =
     (let desc = toLowerCase description;
          merch = toLowerCase merchant;
          combinedText = desc @ '' '' @ merch;
          matchesKeywords = list_ex (\<lambda>keyword. str_includes combinedText (toLowerCase keyword)) (r_keywords rule);
          matchesMerchantKeywords =
            (case r_merchantKeywords rule of
               None \<Rightarrow> False
             | Some ks \<Rightarrow> list_ex (\<lambda>keyword. str_includes merch (toLowerCase keyword)
                                              \<or> str_includes desc (toLowerCase keyword)) ks)
      in (matchesKeywords \<or> matchesMerchantKeywords) \<and> matchesAmount rule amount)"

definition businessKeywords :: "string list" where
  "businessKeywords =
     [''pvt'', ''ltd'', ''co'', ''inc'', ''corp'', ''bank'', ''services'', ''solutions'',
      ''restaurant'', ''supermarket'', ''store'', ''cafe'', ''mall'', ''shop'']"

definition isPersonalTransfer :: "string \<Rightarrow> string \<Rightarrow> bool" where
  "isPersonalTransfer description merchant =
     (let desc = toLowerCase description;
          merch = toLowerCase merchant
      in if str_includes desc ''paytm-'' \<or> str_includes desc ''gpay-'' \<or> str_includes desc ''phonepe''
         then True
         else (let hasBusinessKeyword = list_ex (\<lambda>keyword. str_includes merch keyword) businessKeywords
               in \<not> hasBusinessKeyword \<and> length merch < 25 \<and> \<not> str_includes merch ''@''
                  \<and> \<not> str_includes merch ''www''
                  \<and> \<not> rx_test (False, rx_atleast 4 rx_digit) merch))"

primrec categorizeTransaction_lenient :: "string \<Rightarrow> string \<Rightarrow> rat \<Rightarrow> CategoryRule list \<Rightarrow> Categorization" where
  "categorizeTransaction_lenient description merchant amount [] =
     (if isPersonalTransfer description merchant
      then \<lparr>c_category = ''Transfer'', c_subcategory = Some ''Personal'',
            c_paymentMethod = determinePaymentMethod description, c_isRecurring = False\<rparr>
      else \<lparr>c_category = ''Others'', c_subcategory = None,
            c_paymentMethod = determinePaymentMethod description, c_isRecurring = False\<rparr>)"
| "categorizeTransaction_lenient description merchant amount (rule # rules) =
     (if ruleMatches_lenient rule description merchant amount
      then \<lparr>c_category = r_category rule, c_subcategory = r_subcategory rule,
            c_paymentMethod = determinePaymentMethod description,
            c_isRecurring = (case r_isRecurring rule of None \<Rightarrow> False | Some b \<Rightarrow> b)\<rparr>
      else categorizeTransaction_lenient description merchant amount rules)"

definition merchantTag :: "string \<Rightarrow> string" where
  "merchantTag merchant =
     rx_replace_all (False, Alt (Cat Bol (Lit CHR ''-'')) (Cat (Lit CHR ''-'') Eol)) []
    (rx_replace_all (False, rx_plus (Lit CHR ''-'')) ''-''
    (rx_replace_all (False, NoneOf (lowerAZ @ digits09)) ''-'' (toLowerCase merchant)))"

definition generateTags_lenient :: "string \<Rightarrow> string \<Rightarrow> string \<Rightarrow> rat option \<Rightarrow> string list" where
  "generateTags_lenient description merchant category amount =
     (let desc = toLowerCase description;
          merch = toLowerCase merchant;
          tags = addTags []
            [(True, rx_replace_all (False, OneOf (spaceChars @ ''&'')) ''-'' (toLowerCase category)),
             (str_includes desc ''bhqr'', ''qr-payment''),
             (str_includes desc ''upi'', ''upi''),
             (str_includes desc ''gpay'', ''google-pay''),
             (str_includes desc ''paytm'', ''paytm''),
             (str_includes desc ''neft'', ''neft''),
             (str_includes desc ''imps'', ''imps''),
             (str_includes desc ''rtgs'', ''rtgs''),
             (str_includes desc ''hdfc'', ''hdfc-bank''),
             (str_includes desc ''icici'', ''icici-bank''),
             (str_includes desc ''axis'', ''axis-bank''),
             (str_includes desc ''sbi'' \<or> str_includes desc ''state bank'', ''sbi-bank''),
             (str_includes desc ''yes bank'', ''yes-bank''),
             (rx_test (True, rx_str ''swiggy'') merch, ''food-delivery''),
             (rx_test (True, rx_str ''swiggy'') merch \<and> rx_test (True, rx_str ''instamart'') merch,
              ''grocery-delivery''),
             (rx_test (True, rx_alts [rx_str ''netflix'', rx_str ''prime'', rx_str ''spotify'']) merch,
              ''subscription''),
             (rx_test (True, rx_alts [rx_str ''netflix'', rx_str ''prime'', rx_str ''spotify'']) merch,
              ''monthly-bill''),
             (rx_test (True, rx_alts [rx_str ''emi'', rx_str ''loan'']) desc, ''recurring''),
             (rx_test (True, rx_alts [rx_str ''emi'', rx_str ''loan'']) desc, ''loan-payment'')];
          tags = (if truthyNum amount
                  then (case amount of
                          None \<Rightarrow> tags
                        | Some a \<Rightarrow>
                            addTags tags
                              [(10000 < a, ''high-amount''),
                               (a < 100, ''small-amount'')])
                  else tags);
          tags = addTags tags
            [(merchant \<noteq> ''Unknown'' \<and> 2 < length merchant \<and> 1 < length (merchantTag merchant),
              ''merchant-'' @ merchantTag merchant)]
      in filter (\<lambda>tag. 0 < length tag) tags)"

section \<open>The statement parser (\<^verbatim>\<open>lib/parsers/icici.ts\<close>)\<close>

subsection \<open>Rows\<close>

text \<open>A text item of a page: its string and the two translation entries of its
  transform, \<^verbatim>\<open>transform[4]\<close> (x) and \<^verbatim>\<open>transform[5]\<close> (y).\<close>

record fragment =
  f_str :: string
  f_x :: rat
  f_y :: rat

definition compareItems :: "fragment \<Rightarrow> fragment \<Rightarrow> rat" where
  "compareItems a b =
     (let yDiff = \<bar>f_y a - f_y b\<bar> in
      if 3 < yDiff then f_y b - f_y a else f_x a - f_x b)"

text \<open>
  \<^verbatim>\<open>items.sort(compare)\<close>. Where the comparison orders the items of a page consistently,
  every sorting algorithm returns the same sequence, and the stable insertion sort below
  computes it; the concrete pages of this development are of that kind. The comparison
  is not transitive in general (two items up to 3 apart in y are ordered by x, whatever
  lies between them), and on a page where it runs in a circle ECMAScript leaves the order
  to the implementation: there the array after the sort is some permutation of the items
  and need not be the one computed here. What is proved of the rows for all pages is
  therefore stated of \<open>groupRows\<close>, for every sequence the sort may have left.
\<close>

fun insertItem :: "fragment \<Rightarrow> fragment list \<Rightarrow> fragment list" where
  "insertItem a [] = [a]"
| "insertItem a (b # bs) = (if compareItems a b \<le> 0 then a # b # bs else b # insertItem a bs)"

definition sortItems :: "fragment list \<Rightarrow> fragment list" where
  "sortItems items = foldr insertItem items []"

definition Y_TOLERANCE :: int where
  "Y_TOLERANCE = 5"

text \<open>The sweep over the sorted items, with the rows finished so far, the current row
  and \<^verbatim>\<open>lastY\<close>.\<close>

fun groupLoop :: "fragment list \<Rightarrow> fragment list list \<Rightarrow> fragment list \<Rightarrow> int \<Rightarrow> fragment list list" where
  "groupLoop [] rows currentRow lastY =
     (if 0 < length currentRow then rows @ [currentRow] else rows)"
| "groupLoop (item # rest) rows currentRow lastY =
     (let y = mathRound (f_y item) in
      if lastY = - 1 \<or> \<bar>y - lastY\<bar> \<le> Y_TOLERANCE
      then groupLoop rest rows (currentRow @ [item]) y
      else groupLoop rest (if 0 < length currentRow then rows @ [currentRow] else rows) [item] y)"

text \<open>The test of the sweep for an item \<open>b\<close> that follows an item \<open>a\<close>, when \<^verbatim>\<open>lastY\<close>
  is the rounded y of \<open>a\<close>.\<close>

definition joins :: "fragment \<Rightarrow> fragment \<Rightarrow> bool" where
  "joins a b =
     (mathRound (f_y a) = - 1 \<or> \<bar>mathRound (f_y b) - mathRound (f_y a)\<bar> \<le> Y_TOLERANCE)"

definition groupRows :: "fragment list \<Rightarrow> fragment list list" where
  "groupRows sortedItems = groupLoop sortedItems [] [] (- 1)"

definition extractRows :: "fragment list \<Rightarrow> fragment list list" where
  "extractRows items = groupRows (sortItems items)"

subsection \<open>Segmentation\<close>

definition datePattern :: jsregex where
  "datePattern =
     (False, rx_seq [Bol, Grp 1 (rx_seq [rx_times 2 rx_digit, OneOf ''-/'', rx_times 2 rx_digit,
                                         OneOf ''-/'', rx_times 4 rx_digit]), Eol])"

definition amountPattern :: jsregex where
  "amountPattern =
     (False, Alt
        (rx_seq [Bol, Grp 1 (rx_seq [Rep 1 (Some 3) True rx_digit,
                                     rx_star (rx_seq [Lit CHR '','', rx_times 3 rx_digit]),
                                     rx_opt (rx_seq [Lit CHR ''.'', rx_times 2 rx_digit])]), Eol])
        (rx_seq [Bol, Grp 2 (rx_seq [rx_plus rx_digit, rx_opt (Lit CHR ''.''), rx_star rx_digit]), Eol]))"

definition typePattern :: jsregex where
  "typePattern = (False, rx_seq [Bol, Grp 1 (Alt (rx_str ''DR'') (rx_str ''CR'')), Eol])"

text \<open>The transaction being assembled. A member that is \<^verbatim>\<open>undefined\<close> is \<open>None\<close>; an
  amount that is not a number is \<open>None\<close> as well, the code tests it for truthiness only.\<close>

record open_tx =
  o_date :: "string option"
  o_descriptionParts :: "string list"
  o_amount :: "rat option"
  o_type :: "tx_type option"

definition rowText :: "fragment list \<Rightarrow> string list" where
  "rowText row = filter (\<lambda>s. 0 < length s \<and> \<not> isSystemText s) (map (\<lambda>item. trim (f_str item)) row)"

fun findIndex :: "('a \<Rightarrow> bool) \<Rightarrow> 'a list \<Rightarrow> nat option" where
  "findIndex p [] = None"
| "findIndex p (x # xs) = (if p x then Some 0 else map_option Suc (findIndex p xs))"

text \<open>A text that matches \<open>typePattern\<close> is one of the two type names.\<close>

definition asType :: "string \<Rightarrow> tx_type" where
  "asType text = (if text = ''DR'' then DR else CR)"

definition parseAmount :: "string \<Rightarrow> rat option" where
  "parseAmount text = parseFloat (rx_replace_all (False, Lit CHR '','') [] text)"

text \<open>The completeness test and the push of lines 182 to 198, repeated at lines 247 to
  260: the list of what is pushed, empty or a singleton.\<close>

definition finalize :: "open_tx option \<Rightarrow> ParsedTransaction list" where
  "finalize currentTransaction =
     (case currentTransaction of
        None \<Rightarrow> []
      | Some c \<Rightarrow>
          (case (o_date c, o_amount c) of
             (Some date, Some amount) \<Rightarrow>
               if date \<noteq> [] \<and> amount \<noteq> 0 then
                 (let description = cleanDescription
                        (trim (rx_replace_all (False, rx_plus rx_space) '' ''
                                 (joinWith '' '' (o_descriptionParts c))))
                  in if 0 < length description
                     then [\<lparr>p_date = date, p_description = description, p_amount = amount,
                            p_type = (case o_type c of None \<Rightarrow> DR | Some t \<Rightarrow> t)\<rparr>]
                     else [])
               else []
           | _ \<Rightarrow> []))"

text \<open>The scan of the row that holds the date, from index \<open>i\<close> on.\<close>

fun headerLoop :: "nat \<Rightarrow> nat \<Rightarrow> string list \<Rightarrow> open_tx \<Rightarrow> open_tx" where
  "headerLoop dateIndex i [] c = c"
| "headerLoop dateIndex i (text # rest) c =
     headerLoop dateIndex (Suc i) rest
       (if i = dateIndex then c
        else if rx_test typePattern text then c\<lparr>o_type := Some (asType text)\<rparr>
        else if rx_test amountPattern text \<and> \<not> truthyNum (o_amount c)
          then c\<lparr>o_amount := parseAmount text\<rparr>
        else if text \<noteq> [] \<and> 1 < length text
          then c\<lparr>o_descriptionParts := o_descriptionParts c @ [text]\<rparr>
        else c)"

text \<open>The scan of a continuation row.\<close>

fun continuationLoop :: "string list \<Rightarrow> open_tx \<Rightarrow> open_tx" where
  "continuationLoop [] c = c"
| "continuationLoop (text # rest) c =
     continuationLoop rest
       (if rx_test typePattern text \<and> o_type c = None then c\<lparr>o_type := Some (asType text)\<rparr>
        else if rx_test amountPattern text \<and> \<not> truthyNum (o_amount c)
          then c\<lparr>o_amount := parseAmount text\<rparr>
        else if text \<noteq> [] \<and> 1 < length text \<and> \<not> rx_test typePattern text \<and> \<not> rx_test amountPattern text
          then c\<lparr>o_descriptionParts := o_descriptionParts c @ [text]\<rparr>
        else c)"

text \<open>One turn of the loop over the rows, on the open transaction and the output list.\<close>

definition processRow :: "open_tx option \<times> ParsedTransaction list \<Rightarrow> fragment list \<Rightarrow> open_tx option \<times> ParsedTransaction list" where
  "processRow st row =
     (case st of (currentTransaction, transactions) \<Rightarrow>
        (let texts = rowText row in
         if length texts = 0 then (currentTransaction, transactions)
         else (case findIndex (rx_test datePattern) texts of
                 Some dateIndex \<Rightarrow>
                   (Some (headerLoop dateIndex 0 texts
                            \<lparr>o_date = Some (texts ! dateIndex), o_descriptionParts = [],
                             o_amount = None, o_type = None\<rparr>),
                    transactions @ finalize currentTransaction)
               | None \<Rightarrow>
                   (case currentTransaction of
                      Some c \<Rightarrow> (Some (continuationLoop texts c), transactions)
                    | None \<Rightarrow> (None, transactions)))))"

definition segmentRows :: "fragment list list \<Rightarrow> ParsedTransaction list" where
  "segmentRows rows =
     (case foldl processRow (None, []) rows of
        (currentTransaction, transactions) \<Rightarrow> transactions @ finalize currentTransaction)"

definition extractTransactionsFromPage :: "fragment list \<Rightarrow> ParsedTransaction list" where
  "extractTransactionsFromPage items = segmentRows (extractRows items)"

text \<open>The body of the loop over the pages in \<open>parse\<close>, for one page.\<close>

definition parsePage :: "fragment list \<Rightarrow> string \<Rightarrow> error + Transaction list" where
  "parsePage items accountNumber =
     convertToTransactionInterface (extractTransactionsFromPage items) accountNumber ''ICICI''"


section \<open>The enrichment pipeline (\<^verbatim>\<open>MLTransactionPipeline\<close>)\<close>

datatype confidence_source = Ml | Rules | Hybrid

record MLConfidence =
  score :: rat
  source :: confidence_source

record MLServiceConfig =
  cfg_useML :: bool
  cfg_confidenceThreshold :: rat
  cfg_fallbackToRules :: bool

definition DEFAULT_ML_CONFIG :: MLServiceConfig where
  "DEFAULT_ML_CONFIG = \<lparr>cfg_useML = True, cfg_confidenceThreshold = 7 / 10, cfg_fallbackToRules = True\<rparr>"

definition createMLConfidence :: "rat \<Rightarrow> confidence_source \<Rightarrow> MLConfidence" where
  "createMLConfidence s src = \<lparr>score = max 0 (min 1 s), source = src\<rparr>"

definition shouldUseMlResult :: "MLConfidence \<Rightarrow> rat \<Rightarrow> bool" where
  "shouldUseMlResult confidence threshold = (threshold \<le> score confidence)"

datatype extraction_method = PatternMethod | MlMethod | FallbackMethod

type_synonym alternative = "string \<times> string option \<times> rat"

record MLCategoryPrediction =
  cp_category :: string
  cp_subcategory :: "string option"
  cp_confidence :: MLConfidence
  cp_alternativeCategories :: "alternative list option"

record MLMerchantPrediction =
  mp_merchant :: string
  mp_normalizedMerchant :: string
  mp_confidence :: MLConfidence
  mp_extractionMethod :: extraction_method

record MLTransactionEnrichment =
  e_category :: MLCategoryPrediction
  e_merchant :: MLMerchantPrediction
  e_paymentMethod :: string
  e_isRecurring :: bool
  e_tags :: "string list"
  e_notes :: "string option"
  e_confidence :: MLConfidence

record MLPreprocessedTransaction =
  pp_originalDescription :: string
  pp_cleanedDescription :: string
  pp_tokens :: "string list"
  pp_features :: "(string \<times> rat) list"
  pp_amount :: rat
  pp_type :: tx_kind

text \<open>What the classifier and the merchant extractor resolve to.\<close>

record ClassifierResult =
  cr_category :: string
  cr_subcategory :: "string option"
  cr_confidence :: rat
  cr_alternatives :: "alternative list option"

record ExtractorResult =
  xr_merchant :: string
  xr_normalizedMerchant :: string
  xr_confidence :: rat
  xr_extractionMethod :: extraction_method

datatype ml_error = MLServiceError string

text \<open>
  The three services the pipeline holds, through the interfaces it calls them by
  (\<^verbatim>\<open>MLTextPreprocessor\<close>, \<^verbatim>\<open>MLCategoryClassifier\<close>, \<^verbatim>\<open>MLMerchantExtractor\<close>): whether
  each reports ready, and what each call returns or throws. The tokenizer and the entity
  recogniser behind them belong to an external library.
\<close>

record ml_services =
  svc_preprocessorReady :: bool
  svc_classifierReady :: bool
  svc_extractorReady :: bool
  svc_preprocess :: "string \<Rightarrow> rat \<Rightarrow> tx_kind \<Rightarrow> ml_error + MLPreprocessedTransaction"
  svc_classify :: "MLPreprocessedTransaction \<Rightarrow> ml_error + ClassifierResult"
  svc_extractMerchant :: "string \<Rightarrow> rat \<Rightarrow> ml_error + ExtractorResult"

definition isReady :: "ml_services \<Rightarrow> bool" where
  "isReady svc = (svc_preprocessorReady svc \<and> svc_classifierReady svc \<and> svc_extractorReady svc)"

definition fallbackMerchantExtraction :: "string \<Rightarrow> MLMerchantPrediction" where
  "fallbackMerchantExtraction description =
     (let merchant = extractMerchant description UPI_MERCHANT_PATTERNS;
          normalizedMerchant = normalizeMerchantName merchant MERCHANT_NORMALIZATIONS
      in \<lparr>mp_merchant = merchant,
          mp_normalizedMerchant = normalizedMerchant,
          mp_confidence = createMLConfidence (if merchant = ''Unknown'' then 3 / 10 else 6 / 10) Rules,
          mp_extractionMethod = (if merchant = ''Unknown'' then FallbackMethod else PatternMethod)\<rparr>)"

definition fallbackClassification :: "string \<Rightarrow> rat \<Rightarrow> MLCategoryPrediction" where
  "fallbackClassification description amount =
     (let merchant = mp_merchant (fallbackMerchantExtraction description);
          result = categorizeTransaction description merchant amount DEFAULT_CATEGORY_RULES
      in \<lparr>cp_category = c_category result,
          cp_subcategory = c_subcategory result,
          cp_confidence = createMLConfidence (if c_category result = ''Others'' then 4 / 10 else 7 / 10) Rules,
          cp_alternativeCategories = None\<rparr>)"

text \<open>An exception of the extractor is caught and logged inside the method; the rule
  path follows.\<close>

definition extractMerchantWithFallback :: "MLServiceConfig \<Rightarrow> ml_services \<Rightarrow> string \<Rightarrow> rat \<Rightarrow> MLMerchantPrediction" where
  "extractMerchantWithFallback cfg svc description amount =
     (let accepted =
            (if cfg_useML cfg \<and> svc_extractorReady svc then
               (case svc_extractMerchant svc description amount of
                  Inl e \<Rightarrow> None
                | Inr result \<Rightarrow>
                    if shouldUseMlResult \<lparr>score = xr_confidence result, source = Ml\<rparr> (cfg_confidenceThreshold cfg)
                    then Some \<lparr>mp_merchant = xr_merchant result,
                               mp_normalizedMerchant = xr_normalizedMerchant result,
                               mp_confidence = createMLConfidence (xr_confidence result) Ml,
                               mp_extractionMethod = xr_extractionMethod result\<rparr>
                    else None)
             else None)
      in case accepted of
           Some prediction \<Rightarrow> prediction
         | None \<Rightarrow>
             if cfg_fallbackToRules cfg then fallbackMerchantExtraction description
             else \<lparr>mp_merchant = ''Unknown'', mp_normalizedMerchant = ''Unknown'',
                   mp_confidence = createMLConfidence (1 / 10) Rules,
                   mp_extractionMethod = FallbackMethod\<rparr>)"

definition classifyWithFallback :: "MLServiceConfig \<Rightarrow> ml_services \<Rightarrow> MLPreprocessedTransaction \<Rightarrow> string \<Rightarrow> rat \<Rightarrow> MLCategoryPrediction" where
  "classifyWithFallback cfg svc preprocessed description amount =
     (let accepted =
            (if cfg_useML cfg \<and> svc_classifierReady svc then
               (case svc_classify svc preprocessed of
                  Inl e \<Rightarrow> None
                | Inr result \<Rightarrow>
                    if shouldUseMlResult \<lparr>score = cr_confidence result, source = Ml\<rparr> (cfg_confidenceThreshold cfg)
                    then Some \<lparr>cp_category = cr_category result,
                               cp_subcategory = cr_subcategory result,
                               cp_confidence = createMLConfidence (cr_confidence result) Ml,
                               cp_alternativeCategories = cr_alternatives result\<rparr>
                    else None)
             else None)
      in case accepted of
           Some prediction \<Rightarrow> prediction
         | None \<Rightarrow>
             if cfg_fallbackToRules cfg then fallbackClassification description amount
             else \<lparr>cp_category = ''Others'', cp_subcategory = None,
                   cp_confidence = createMLConfidence (3 / 10) Rules,
                   cp_alternativeCategories = None\<rparr>)"

definition isTransactionRecurring :: "string \<Rightarrow> string \<Rightarrow> bool" where
  "isTransactionRecurring description category =
     (let desc = toLowerCase description in
      list_ex (\<lambda>keyword. str_includes desc keyword)
        [''monthly'', ''subscription'', ''emi'', ''loan'', ''netflix'', ''prime'']
      \<or> category \<in> set [''Utilities'', ''Finance''])"

text \<open>The complete rule-based pass.\<close>

definition fallbackToRules :: "string \<Rightarrow> rat \<Rightarrow> tx_kind \<Rightarrow> MLTransactionEnrichment" where
  "fallbackToRules description amount kind =
     (let merchantResult = fallbackMerchantExtraction description;
          categoryResult = fallbackClassification description amount
      in \<lparr>e_category = categoryResult,
          e_merchant = merchantResult,
          e_paymentMethod = determinePaymentMethod description,
          e_isRecurring = isTransactionRecurring description (cp_category categoryResult),
          e_tags = generateTags description (mp_merchant merchantResult) (cp_category categoryResult) (Some amount),
          e_notes = extractNotes description,
          e_confidence = createMLConfidence (6 / 10) Rules\<rparr>)"

text \<open>A feature counts when it is present and not zero.\<close>

definition feature :: "MLPreprocessedTransaction \<Rightarrow> string \<Rightarrow> bool" where
  "feature preprocessed name = truthyNum (map_of (pp_features preprocessed) name)"

definition determineRecurring :: "MLPreprocessedTransaction \<Rightarrow> MLCategoryPrediction \<Rightarrow> bool" where
  "determineRecurring preprocessed categoryResult =
     (if feature preprocessed ''has_entertainment_keywords'' \<and> feature preprocessed ''is_round_amount'' then True
      else if feature preprocessed ''has_service_keywords'' \<and> feature preprocessed ''is_medium_amount'' then True
      else if cp_category categoryResult \<in> set [''Utilities'', ''Finance''] then True
      else if cp_category categoryResult = ''Entertainment''
              \<and> cp_subcategory categoryResult = Some ''Streaming Services'' then True
      else False)"

definition generateEnhancedTags :: "string \<Rightarrow> string \<Rightarrow> string \<Rightarrow> rat \<Rightarrow> string \<Rightarrow> string list" where
  "generateEnhancedTags description merchant category amount paymentMethod =
     (let baseTags = generateTags description merchant category (Some amount)
      in addTags (foldl setAdd [] baseTags)
           [(True, ''ml-enhanced''),
            (paymentMethod = ''UPI'', ''digital-payment''),
            (paymentMethod = ''Card'', ''card-payment''),
            (10000 < amount, ''high-value''),
            (jsRem amount 100 = 0 \<and> 1000 \<le> amount, ''round-amount-large''),
            (merchant \<noteq> ''Unknown'' \<and> 2 < length merchant, ''merchant-identified'')])"

definition calculateOverallConfidence :: "MLConfidence \<Rightarrow> MLConfidence \<Rightarrow> MLConfidence" where
  "calculateOverallConfidence merchantConfidence categoryConfidence =
     (let merchantWeight = 4 / 10;
          categoryWeight = 6 / 10;
          overallScore = score merchantConfidence * merchantWeight + score categoryConfidence * categoryWeight;
          src = (if source merchantConfidence = Ml \<and> source categoryConfidence = Ml then Ml
                 else if source merchantConfidence = Rules \<and> source categoryConfidence = Rules then Rules
                 else Hybrid)
      in createMLConfidence overallScore src)"

text \<open>
  The body of the \<^verbatim>\<open>try\<close> block of \<open>enrichTransaction\<close>; the preprocessor is the one call
  in it whose exception is not caught closer by.
\<close>

definition enrichBody :: "MLServiceConfig \<Rightarrow> ml_services \<Rightarrow> string \<Rightarrow> rat \<Rightarrow> tx_kind \<Rightarrow> ml_error + MLTransactionEnrichment" where
  "enrichBody cfg svc description amount kind =
     (if \<not> isReady svc then Inr (fallbackToRules description amount kind)
      else (case svc_preprocess svc description amount kind of
              Inl e \<Rightarrow> Inl e
            | Inr preprocessed \<Rightarrow>
                (let mlMerchantResult = extractMerchantWithFallback cfg svc description amount;
                     mlCategoryResult = classifyWithFallback cfg svc preprocessed description amount;
                     paymentMethod = determinePaymentMethod description;
                     isRecurring = determineRecurring preprocessed mlCategoryResult;
                     tags = generateEnhancedTags description (mp_merchant mlMerchantResult)
                              (cp_category mlCategoryResult) amount paymentMethod;
                     notes = extractNotes description;
                     overallConfidence = calculateOverallConfidence (mp_confidence mlMerchantResult)
                                           (cp_confidence mlCategoryResult)
                 in Inr \<lparr>e_category = mlCategoryResult,
                         e_merchant = mlMerchantResult,
                         e_paymentMethod = paymentMethod,
                         e_isRecurring = isRecurring,
                         e_tags = tags,
                         e_notes = notes,
                         e_confidence = overallConfidence\<rparr>)))"

definition enrichTransaction :: "MLServiceConfig \<Rightarrow> ml_services \<Rightarrow> string \<Rightarrow> rat \<Rightarrow> tx_kind \<Rightarrow> ml_error + MLTransactionEnrichment" where
  "enrichTransaction cfg svc description amount kind =
     (case enrichBody cfg svc description amount kind of
        Inr enrichment \<Rightarrow> Inr enrichment
      | Inl e \<Rightarrow> Inr (fallbackToRules description amount kind))"


section \<open>The merchant extractor (\<^verbatim>\<open>EnhancedMerchantExtractor\<close>)\<close>

text \<open>
  The extractor first tries its patterns and accepts their result above a confidence of
  0.7. Below that it scores candidates: the places, organisations and people that the
  entity recogniser of the external library reports, and the runs of capital letters of
  the description. The recogniser is a parameter; everything around it is the code of
  the extractor.
\<close>

record EnhancedPattern =
  ep_regex :: jsregex
  ep_extractGroup :: nat
  ep_cleanup :: "(string \<Rightarrow> string) option"

definition endsWith :: "string \<Rightarrow> string \<Rightarrow> bool" where
  "endsWith s k = startsWith (rev s) (rev k)"

definition enhancedPatterns :: "EnhancedPattern list" where
  "enhancedPatterns =
     map (\<lambda>p. \<lparr>ep_regex = mp_regex p, ep_extractGroup = mp_extractGroup p, ep_cleanup = None\<rparr>)
         UPI_MERCHANT_PATTERNS
     @ [\<lparr>ep_regex = (True, rx_seq [rx_alts [rx_str ''UPI/'', rx_str ''BHQR/'', rx_str ''GPAY-'', rx_str ''PAYTM-''],
                                      Grp 1 (rx_plus (NoneOf (''/'' @ spaceChars))),
                                      rx_opt (rx_seq [OneOf (''/'' @ spaceChars), rx_star Dot]), Eol]),
         ep_extractGroup = 1,
         ep_cleanup = Some (\<lambda>name. trim (rx_replace
           (True, rx_seq [rx_star rx_space,
                          Grp 1 (rx_alts [rx_str ''REST'', rx_str ''H'', rx_str ''CO'', rx_str ''PVT'',
                                          rx_str ''LTD'', rx_seq [rx_str ''SOLUTION'', rx_opt (Lit CHR ''S'')],
                                          rx_str ''SOL'', rx_str ''INDIA'', rx_str ''IND'']),
                          Eol]) [] name))\<rparr>,
        \<lparr>ep_regex = (True, rx_seq [rx_str ''CARD'', rx_plus rx_space, rx_str ''PAYMENT'', rx_plus rx_space,
                                      rx_opt (rx_seq [rx_str ''TO'', rx_plus rx_space]),
                                      Grp 1 (rx_plus (NoneOf [CHR ''/'', CHR 0x0A])),
                                      rx_opt (rx_seq [Lit CHR ''/'', rx_star Dot]), Eol]),
         ep_extractGroup = 1,
         ep_cleanup = None\<rparr>,
        \<lparr>ep_regex = (True, rx_seq [rx_str ''BIL/'', Grp 1 (rx_plus (NoneOf ''/'')), Lit CHR ''/'',
                                      Grp 2 (rx_plus (NoneOf ''/''))]),
         ep_extractGroup = 2,
         ep_cleanup = Some (\<lambda>name. trim (rx_replace
           (True, rx_seq [rx_star rx_space,
                          Grp 1 (rx_alts [rx_str ''BILL'', rx_str ''PAYMENT'', rx_str ''PAY'']),
                          rx_star Dot, Eol]) [] name))\<rparr>,
        \<lparr>ep_regex = (True, rx_seq [rx_opt (rx_seq [rx_str ''ONLINE'', rx_plus rx_space]),
                                      rx_str ''PAYMENT'', rx_plus rx_space,
                                      rx_opt (rx_seq [rx_str ''TO'', rx_plus rx_space]),
                                      Grp 1 (rx_seq [OneOf (upperAZ @ lowerAZ),
                                                     Rep 1 None False (NoneOf [CHR ''/'', CHR 0x0A])]),
                                      rx_opt (rx_seq [rx_plus rx_space,
                                                      Alt (rx_str ''VIA'') (rx_str ''THROUGH''), rx_star Dot]),
                                      Eol]),
         ep_extractGroup = 1,
         ep_cleanup = None\<rparr>,
        \<lparr>ep_regex = (True, rx_seq [rx_opt (rx_seq [rx_str ''TRANSFER'', rx_plus rx_space]),
                                      rx_str ''TO'', rx_plus rx_space,
                                      Grp 1 (Rep 1 None False (NoneOf [CHR ''/'', CHR 0x0A])),
                                      rx_opt (rx_seq [rx_plus rx_space,
                                                      Alt (rx_str ''A/C'') (rx_str ''ACCOUNT''), rx_star Dot]),
                                      Eol]),
         ep_extractGroup = 1,
         ep_cleanup = None\<rparr>]"

text \<open>The table of merchant types, in the order of its entries: keywords, suffixes,
  confidence.\<close>

definition merchantTypePatterns :: "(string list \<times> string list \<times> rat) list" where
  "merchantTypePatterns =
     [([''restaurant'', ''cafe'', ''hotel'', ''dining'', ''food'', ''kitchen'', ''canteen''],
       [''rest'', ''hotel'', ''cafe'', ''kitchen''], 8 / 10),
      ([''store'', ''shop'', ''mart'', ''market'', ''supermarket'', ''hypermarket''],
       [''store'', ''mart'', ''market''], 75 / 100),
      ([''services'', ''solutions'', ''consulting'', ''tech'', ''software''],
       [''services'', ''solutions'', ''tech'', ''sol''], 7 / 10),
      ([''cinema'', ''movie'', ''entertainment'', ''games'', ''sports''],
       [''cinema'', ''movies'', ''entertainment''], 8 / 10),
      ([''hospital'', ''clinic'', ''medical'', ''pharmacy'', ''health''],
       [''hospital'', ''clinic'', ''medical'', ''pharmacy''], 9 / 10)]"

primrec identifyMerchantTypeIn :: "(string list \<times> string list \<times> rat) list \<Rightarrow> string \<Rightarrow> rat option" where
  "identifyMerchantTypeIn [] merchant = None"
| "identifyMerchantTypeIn (pattern # rest) merchant =
     (case pattern of (keywords, suffixes, confidence) \<Rightarrow>
        if list_ex (\<lambda>keyword. str_includes merchant keyword) keywords then Some confidence
        else if list_ex (\<lambda>suffix. endsWith merchant suffix) suffixes then Some (confidence * (8 / 10))
        else identifyMerchantTypeIn rest merchant)"

definition identifyMerchantType :: "string \<Rightarrow> rat option" where
  "identifyMerchantType merchant = identifyMerchantTypeIn merchantTypePatterns merchant"

definition calculatePatternConfidence :: "string \<Rightarrow> rat" where
  "calculatePatternConfidence merchant =
     (let confidence = 7 / 10;
          confidence = (if 5 < length merchant then confidence + 1 / 10 else confidence);
          confidence = (if rx_test (False, rx_seq [Bol, OneOf upperAZ, OneOf lowerAZ]) merchant
                        then confidence + 5 / 100 else confidence);
          confidence = (if 1 < length (splitOn (\<lambda>c. c = CHR '' '') merchant)
                        then confidence + 1 / 10 else confidence);
          confidence = (case identifyMerchantType (toLowerCase merchant) of
                          Some typeConfidence \<Rightarrow> confidence + typeConfidence * (2 / 10)
                        | None \<Rightarrow> confidence);
          confidence = (if normalizeMerchantName merchant MERCHANT_NORMALIZATIONS \<noteq> merchant
                        then confidence + 15 / 100 else confidence)
      in min 1 confidence)"

primrec tryEnhancedPatterns :: "string \<Rightarrow> EnhancedPattern list \<Rightarrow> ExtractorResult option" where
  "tryEnhancedPatterns cleanDesc [] = None"
| "tryEnhancedPatterns cleanDesc (pattern # rest) =
     (case rx_exec (ep_regex pattern) cleanDesc of
        None \<Rightarrow> tryEnhancedPatterns cleanDesc rest
      | Some m \<Rightarrow>
          (case rx_group m (ep_extractGroup pattern) of
             None \<Rightarrow> tryEnhancedPatterns cleanDesc rest
           | Some g \<Rightarrow>
               if g = [] then tryEnhancedPatterns cleanDesc rest
               else (let merchant = trim g;
                         merchant = (case ep_cleanup pattern of
                                       Some cleanup \<Rightarrow> if merchant \<noteq> [] then cleanup merchant else merchant
                                     | None \<Rightarrow> merchant)
                     in if merchant \<noteq> [] \<and> 1 < length merchant
                        then Some \<lparr>xr_merchant = merchant,
                                   xr_normalizedMerchant = normalizeMerchantName merchant MERCHANT_NORMALIZATIONS,
                                   xr_confidence = calculatePatternConfidence merchant,
                                   xr_extractionMethod = PatternMethod\<rparr>
                        else tryEnhancedPatterns cleanDesc rest)))"

definition extractWithPatterns :: "string \<Rightarrow> ExtractorResult" where
  "extractWithPatterns description =
     (case tryEnhancedPatterns (trim description) enhancedPatterns of
        Some result \<Rightarrow> result
      | None \<Rightarrow>
          (let rulesMerchant = extractMerchant description UPI_MERCHANT_PATTERNS in
           if rulesMerchant \<noteq> [] \<and> rulesMerchant \<noteq> ''Unknown''
           then \<lparr>xr_merchant = rulesMerchant,
                 xr_normalizedMerchant = normalizeMerchantName rulesMerchant MERCHANT_NORMALIZATIONS,
                 xr_confidence = 6 / 10,
                 xr_extractionMethod = PatternMethod\<rparr>
           else \<lparr>xr_merchant = ''Unknown'', xr_normalizedMerchant = ''Unknown'',
                 xr_confidence = 1 / 10, xr_extractionMethod = FallbackMethod\<rparr>))"

definition extractWithFallback :: "string \<Rightarrow> ExtractorResult" where
  "extractWithFallback description =
     \<lparr>xr_merchant = ''Unknown'', xr_normalizedMerchant = ''Unknown'',
      xr_confidence = 1 / 10, xr_extractionMethod = FallbackMethod\<rparr>"

text \<open>What the entity recogniser reports for a description.\<close>

record entities =
  en_places :: "string list"
  en_organizations :: "string list"
  en_people :: "string list"

datatype candidate_type = PlaceType | OrganizationType | PersonType | CapitalizedType

record candidate =
  cd_name :: string
  cd_score :: rat
  cd_type :: candidate_type

definition businessIndicators :: "string list" where
  "businessIndicators = [''pvt'', ''ltd'', ''co'', ''inc'', ''corp'', ''services'', ''solutions'']"

text \<open>The score of a candidate, an exact sum of the decimal constants of the code. (In
  the floating-point numbers of the code a sum may lie one rounding step beside the
  decimal it stands for; no statement below rests on a score that meets a threshold
  exactly.)\<close>

definition scoreMerchantCandidate :: "string \<Rightarrow> candidate_type \<Rightarrow> rat" where
  "scoreMerchantCandidate cand type =
     (let score = 4 / 10;
          score = (case type of
                     OrganizationType \<Rightarrow> score + 3 / 10
                   | PlaceType \<Rightarrow> score + 25 / 100
                   | CapitalizedType \<Rightarrow> score + 2 / 10
                   | PersonType \<Rightarrow> score + 15 / 100);
          score = (if 8 < length cand then score + 1 / 10 else score);
          score = (if length cand < 3 then score - 3 / 10 else score);
          hasBusinessIndicator = list_ex (\<lambda>indicator. str_includes (toLowerCase cand) indicator)
                                   businessIndicators;
          score = (if hasBusinessIndicator then score + 2 / 10 else score);
          score = (case identifyMerchantType (toLowerCase cand) of
                     Some typeConfidence \<Rightarrow> score + typeConfidence * (15 / 100)
                   | None \<Rightarrow> score);
          score = (if rx_test (False, rx_seq [Bol, rx_times 3 (OneOf upperAZ), rx_plus rx_digit]) cand
                      \<or> rx_test (False, rx_atleast 6 rx_digit) cand
                   then score - 4 / 10 else score)
      in max 0 (min 1 score))"

text \<open>One of the four loops that fill the list of candidates: the names of one type whose
  score is above the threshold of that loop, in their order.\<close>

definition scoreCandidates :: "candidate_type \<Rightarrow> rat \<Rightarrow> string list \<Rightarrow> candidate list" where
  "scoreCandidates type threshold names =
     concat (map (\<lambda>name. (let score = scoreMerchantCandidate name type in
                            if threshold < score then [\<lparr>cd_name = name, cd_score = score, cd_type = type\<rparr>]
                            else []))
                 names)"

text \<open>\<^verbatim>\<open>candidates.sort((a, b) => b.score - a.score)\<close>. This comparison orders by one
  number, and the sort of ECMAScript is stable: the result is the candidates by
  descending score, those of equal score in their order of insertion.\<close>

fun insertCandidate :: "candidate \<Rightarrow> candidate list \<Rightarrow> candidate list" where
  "insertCandidate a [] = [a]"
| "insertCandidate a (b # bs) =
     (if cd_score b - cd_score a \<le> 0 then a # b # bs else b # insertCandidate a bs)"

definition sortCandidates :: "candidate list \<Rightarrow> candidate list" where
  "sortCandidates candidates = foldr insertCandidate candidates []"

definition capitalizedPattern :: jsregex where
  "capitalizedPattern =
     (False, rx_seq [WordB, OneOf upperAZ, rx_atleast 2 (OneOf (upperAZ @ spaceChars)), WordB])"

text \<open>\<^verbatim>\<open>extractWithML\<close>; \<open>recognise\<close> stands for the three queries to the library, which
  may throw.\<close>

definition extractWithML :: "(string \<Rightarrow> ml_error + entities) \<Rightarrow> string \<Rightarrow> rat \<Rightarrow> ml_error + ExtractorResult" where
  "extractWithML recognise description amount =
     (case recognise description of
        Inl e \<Rightarrow> Inl e
      | Inr found \<Rightarrow>
          (let candidates = scoreCandidates PlaceType (3 / 10) (en_places found)
                 @ scoreCandidates OrganizationType (3 / 10) (en_organizations found)
                 @ scoreCandidates PersonType (3 / 10) (en_people found);
               capitalizedWords = rx_match_all capitalizedPattern description;
               candidates = candidates
                 @ scoreCandidates CapitalizedType (4 / 10)
                     (filter (\<lambda>cleanWord. 2 < length cleanWord) (map trim capitalizedWords))
           in if 0 < length candidates then
                (let bestCandidate = hd (sortCandidates candidates) in
                 Inr \<lparr>xr_merchant = cd_name bestCandidate,
                      xr_normalizedMerchant = normalizeMerchantName (cd_name bestCandidate) MERCHANT_NORMALIZATIONS,
                      xr_confidence = cd_score bestCandidate,
                      xr_extractionMethod = MlMethod\<rparr>)
              else Inr \<lparr>xr_merchant = ''Unknown'', xr_normalizedMerchant = ''Unknown'',
                        xr_confidence = 2 / 10, xr_extractionMethod = MlMethod\<rparr>))"

text \<open>\<^verbatim>\<open>EnhancedMerchantExtractor.extractMerchant\<close> of an extractor after its constructor,
  which sets \<^verbatim>\<open>isInitialized\<close>. Whatever is thrown inside is thrown again as a service
  error with an extended message.\<close>

definition enhancedExtractMerchant :: "(string \<Rightarrow> ml_error + entities) \<Rightarrow> string \<Rightarrow> rat \<Rightarrow> ml_error + ExtractorResult" where
  "enhancedExtractMerchant recognise description amount =
     (let patternResult = extractWithPatterns description in
      if 7 / 10 < xr_confidence patternResult then Inr patternResult
      else (case extractWithML recognise description amount of
              Inl (MLServiceError message) \<Rightarrow>
                Inl (MLServiceError (''Failed to extract merchant: '' @ message))
            | Inr mlResult \<Rightarrow>
                if 6 / 10 < xr_confidence mlResult then Inr mlResult
                else Inr (extractWithFallback description)))"


section \<open>Dates, in the words of the specification\<close>

text \<open>
  The date a valid input denotes, and what makes an input valid: day, month and year are
  whole numbers within 1 to 31, 1 to 12 and from 1900 on, and together they name a day
  of the calendar (the day exists in that month of that year) that a \<^verbatim>\<open>Date\<close> can hold.
  \<open>parseDate\<close> is compared with these below.
\<close>

definition noonUTC :: "int \<Rightarrow> int \<Rightarrow> int \<Rightarrow> jsdate" where
  "noonUTC year month day =
     \<lparr>utcFullYear = year, utcMonth = month - 1, utcDate = day, utcHours = 12,
      utcMinutes = 0, utcSeconds = 0, utcMilliseconds = 0\<rparr>"

definition isWhole :: "rat \<Rightarrow> bool" where
  "isWhole q = (of_int \<lfloor>q\<rfloor> = q)"

definition validDate :: "rat \<Rightarrow> rat \<Rightarrow> rat \<Rightarrow> bool" where
  "validDate day month year =
     (isWhole day \<and> isWhole month \<and> isWhole year
      \<and> 1 \<le> day \<and> day \<le> 31 \<and> 1 \<le> month \<and> month \<le> 12 \<and> 1900 \<le> year
      \<and> \<lfloor>day\<rfloor> \<le> daysInMonth \<lfloor>year\<rfloor> (\<lfloor>month\<rfloor> - 1)
      \<and> (\<lfloor>year\<rfloor> < 275760
           \<or> (\<lfloor>year\<rfloor> = 275760 \<and> (\<lfloor>month\<rfloor> < 9 \<or> (\<lfloor>month\<rfloor> = 9 \<and> \<lfloor>day\<rfloor> \<le> 12)))))"

section \<open>Rows, in the words of the specification\<close>

text \<open>Two fragments are within the tolerance of each other when their rounded
  y-coordinates differ by at most \<open>Y_TOLERANCE\<close>; two fragments share a row when some row
  holds both.\<close>

definition nearY :: "fragment \<Rightarrow> fragment \<Rightarrow> bool" where
  "nearY a b = (\<bar>mathRound (f_y b) - mathRound (f_y a)\<bar> \<le> Y_TOLERANCE)"

definition sameRow :: "fragment list list \<Rightarrow> fragment \<Rightarrow> fragment \<Rightarrow> bool" where
  "sameRow rows a b = list_ex (\<lambda>row. a \<in> set row \<and> b \<in> set row) rows"

section \<open>Sample inputs\<close>

text \<open>The page of the end-to-end scenario: one row of four fragments at height \<open>y\<close>.\<close>

definition netflixRow :: "rat \<Rightarrow> fragment list" where
  "netflixRow y =
     [\<lparr>f_str = ''15-03-2024'', f_x = 0, f_y = y\<rparr>,
      \<lparr>f_str = ''UPI/NETFLIX/123'', f_x = 40, f_y = y\<rparr>,
      \<lparr>f_str = ''199.00'', f_x = 200, f_y = y\<rparr>,
      \<lparr>f_str = ''DR'', f_x = 260, f_y = y\<rparr>]"

text \<open>A header row without a type token, and a continuation row of description text.\<close>

definition untypedRows :: "fragment list list" where
  "untypedRows =
     [[\<lparr>f_str = ''16/03/2024'', f_x = 0, f_y = 680\<rparr>,
       \<lparr>f_str = ''IMPS/123/Some One'', f_x = 40, f_y = 680\<rparr>,
       \<lparr>f_str = ''1,250.50'', f_x = 200, f_y = 680\<rparr>],
      [\<lparr>f_str = ''HDFC BANK'', f_x = 40, f_y = 670\<rparr>]]"

text \<open>Two records whose dates parse, and one whose date names no day of the calendar
  although it has the shape of \<open>datePattern\<close>.\<close>

definition sampleParsed :: "ParsedTransaction list" where
  "sampleParsed =
     [\<lparr>p_date = ''15-03-2024'', p_description = ''UPI/NETFLIX/123'', p_amount = 199, p_type = DR\<rparr>,
      \<lparr>p_date = ''16/03/2024'', p_description = ''IMPS/123/Some One HDFC BANK'', p_amount = 2501 / 2,
       p_type = CR\<rparr>]"

definition badDateParsed :: "ParsedTransaction list" where
  "badDateParsed =
     [\<lparr>p_date = ''31-02-2024'', p_description = ''UPI/NETFLIX/123'', p_amount = 199, p_type = DR\<rparr>]"

text \<open>Two pages of three fragments each. On both the comparison of the sort is a strict
  total order, so the sorted sequence does not depend on the sorting algorithm.\<close>

definition chainPage :: "fragment list" where
  "chainPage =
     [\<lparr>f_str = ''top'', f_x = 0, f_y = 10\<rparr>,
      \<lparr>f_str = ''middle'', f_x = 0, f_y = 6\<rparr>,
      \<lparr>f_str = ''bottom'', f_x = 0, f_y = 2\<rparr>]"

definition splitPage :: "fragment list" where
  "splitPage =
     [\<lparr>f_str = ''top'', f_x = 0, f_y = 10\<rparr>,
      \<lparr>f_str = ''left'', f_x = 0, f_y = 4\<rparr>,
      \<lparr>f_str = ''right'', f_x = 10, f_y = 5\<rparr>]"

text \<open>A page the comparison orders consistently (by x, except that \<open>upper\<close> comes before
  \<open>lower\<close> by y), listed in that order.\<close>

definition overlapPage :: "fragment list" where
  "overlapPage =
     [\<lparr>f_str = ''first'', f_x = 0, f_y = 17 / 2\<rparr>,
      \<lparr>f_str = ''upper'', f_x = 1, f_y = 23 / 2\<rparr>,
      \<lparr>f_str = ''lower'', f_x = 2, f_y = 28 / 5\<rparr>,
      \<lparr>f_str = ''last'', f_x = 3, f_y = 43 / 5\<rparr>]"

text \<open>Three fragments on which the comparison runs in a circle.\<close>

definition cyclicPage :: "fragment list" where
  "cyclicPage =
     [\<lparr>f_str = ''A'', f_x = 0, f_y = 0\<rparr>,
      \<lparr>f_str = ''C'', f_x = 10, f_y = 6\<rparr>,
      \<lparr>f_str = ''B'', f_x = 5, f_y = 3\<rparr>]"

text \<open>
  The services of a test that forces the classifier to throw: the classifier always
  throws, the merchant extractor is the extractor of the repository over an entity
  recogniser that finds nothing, and the preprocessor returns a record without tokens or
  features. What the fused confidence comes to does not depend on the last two choices
  more than the theorems below say.
\<close>

definition throwingClassifier :: "MLPreprocessedTransaction \<Rightarrow> ml_error + ClassifierResult" where
  "throwingClassifier preprocessed = Inl (MLServiceError ''classifier forced to throw'')"

definition noEntities :: "string \<Rightarrow> ml_error + entities" where
  "noEntities description = Inr \<lparr>en_places = [], en_organizations = [], en_people = []\<rparr>"

definition plainPreprocess :: "string \<Rightarrow> rat \<Rightarrow> tx_kind \<Rightarrow> ml_error + MLPreprocessedTransaction" where
  "plainPreprocess description amount kind =
     Inr \<lparr>pp_originalDescription = description, pp_cleanedDescription = toLowerCase description,
          pp_tokens = [], pp_features = [], pp_amount = amount, pp_type = kind\<rparr>"

definition forcedFailureServices :: ml_services where
  "forcedFailureServices =
     \<lparr>svc_preprocessorReady = True, svc_classifierReady = True, svc_extractorReady = True,
      svc_preprocess = plainPreprocess,
      svc_classify = throwingClassifier,
      svc_extractMerchant = enhancedExtractMerchant noEntities\<rparr>"

section \<open>Properties\<close>

subsection \<open>Bounds of the recursions\<close>

lemma shrinkingD: "shrinking f \<Longrightarrow> st' \<in> set (f st) \<Longrightarrow> length (fst (snd st')) \<le> length (fst (snd st))"
  unfolding shrinking_def by blast

lemma shrinkingI:
  "(\<And>st st'. st' \<in> set (f st) \<Longrightarrow> length (fst (snd st')) \<le> length (fst (snd st))) \<Longrightarrow> shrinking f"
  unfolding shrinking_def by blast

lemma step1_shrinking: "shrinking (step1 p)"
proof (rule shrinkingI)
  fix st st' :: mstate
  assume "st' \<in> set (step1 p st)"
  then show "length (fst (snd st')) \<le> length (fst (snd st))"
    by (cases st; cases "fst (snd st)") (auto simp: step1_def split: if_splits)
qed

lemma rep_shrinks:
  assumes "shrinking f"
  shows "st' \<in> set (rep f g k lo hi st) \<Longrightarrow> length (fst (snd st')) \<le> length (fst (snd st))"
proof (induction k arbitrary: lo hi st)
  case 0
  then show ?case by simp
next
  case (Suc k)
  show ?case
  proof (cases "hi = Some 0")
    case True
    then show ?thesis using Suc.prems by simp
  next
    case False
    let ?more = "concat (map (\<lambda>s'. if lo = 0 \<and> length (fst (snd s')) = length (fst (snd st)) then []
                                      else rep f g k (lo - 1) (map_option (\<lambda>m. m - 1) hi) s') (f st))"
    from Suc.prems False have "st' \<in> set ?more \<or> st' = st"
      by (auto simp: Let_def split: if_splits)
    then show ?thesis
    proof
      assume "st' \<in> set ?more"
      then obtain s' where s': "s' \<in> set (f st)"
        and in': "st' \<in> set (rep f g k (lo - 1) (map_option (\<lambda>m. m - 1) hi) s')"
        by (auto split: if_splits)
      from Suc.IH[OF in'] shrinkingD[OF assms s'] show ?thesis by simp
    next
      assume "st' = st"
      then show ?thesis by simp
    qed
  qed
qed

lemma mt_shrinking: "shrinking (mt ci r)"
proof (induction r)
  case Eps
  show ?case by (rule shrinkingI) simp
next
  case (Lit c)
  show ?case using step1_shrinking by simp
next
  case Dot
  show ?case using step1_shrinking by simp
next
  case (OneOf cs)
  show ?case using step1_shrinking by simp
next
  case (NoneOf cs)
  show ?case using step1_shrinking by simp
next
  case (Cat r1 r2)
  show ?case
  proof (rule shrinkingI)
    fix st st' :: mstate
    assume "st' \<in> set (mt ci (Cat r1 r2) st)"
    then obtain s1 where "s1 \<in> set (mt ci r1 st)" and "st' \<in> set (mt ci r2 s1)"
      by auto
    then show "length (fst (snd st')) \<le> length (fst (snd st))"
      using shrinkingD[OF Cat.IH(1)] shrinkingD[OF Cat.IH(2)] by (meson order_trans)
  qed
next
  case (Alt r1 r2)
  show ?case
  proof (rule shrinkingI)
    fix st st' :: mstate
    assume "st' \<in> set (mt ci (Alt r1 r2) st)"
    then have "st' \<in> set (mt ci r1 st) \<or> st' \<in> set (mt ci r2 st)"
      by auto
    then show "length (fst (snd st')) \<le> length (fst (snd st))"
      using shrinkingD[OF Alt.IH(1)] shrinkingD[OF Alt.IH(2)] by blast
  qed
next
  case (Grp n r)
  show ?case
  proof (rule shrinkingI)
    fix st st' :: mstate
    assume "st' \<in> set (mt ci (Grp n r) st)"
    then obtain s1 where "s1 \<in> set (mt ci r st)" and "fst (snd st') = fst (snd s1)"
      by (auto split: prod.splits)
    then show "length (fst (snd st')) \<le> length (fst (snd st))"
      using shrinkingD[OF Grp.IH] by simp
  qed
next
  case (Rep lo hi g r)
  show ?case
  proof (rule shrinkingI)
    fix st st' :: mstate
    assume "st' \<in> set (mt ci (Rep lo hi g r) st)"
    then have "st' \<in> set (rep (mt ci r) g (Suc (lo + length (fst (snd st)))) lo hi st)"
      by (simp del: rep.simps)
    then show "length (fst (snd st')) \<le> length (fst (snd st))"
      by (rule rep_shrinks[OF Rep.IH])
  qed
next
  case Bol
  show ?case by (rule shrinkingI) (simp split: if_splits)
next
  case Eol
  show ?case by (rule shrinkingI) (simp split: if_splits)
next
  case WordB
  show ?case by (rule shrinkingI) (simp add: Let_def split: if_splits)
qed

lemma rep_fuel:
  assumes "shrinking f"
  shows "lo + length (fst (snd st)) < k \<Longrightarrow> lo + length (fst (snd st)) < k' \<Longrightarrow>
         rep f g k lo hi st = rep f g k' lo hi st"
proof (induction k arbitrary: k' lo hi st)
  case 0
  then show ?case by simp
next
  case (Suc n)
  then obtain n' where k': "k' = Suc n'" by (cases k') auto
  have "(if lo = 0 \<and> length (fst (snd s')) = length (fst (snd st)) then []
         else rep f g n (lo - 1) (map_option (\<lambda>m. m - 1) hi) s')
      = (if lo = 0 \<and> length (fst (snd s')) = length (fst (snd st)) then []
         else rep f g n' (lo - 1) (map_option (\<lambda>m. m - 1) hi) s')"
    if s': "s' \<in> set (f st)" for s'
  proof (cases "lo = 0 \<and> length (fst (snd s')) = length (fst (snd st))")
    case True
    then show ?thesis by simp
  next
    case False
    have le: "length (fst (snd s')) \<le> length (fst (snd st))"
      using shrinkingD[OF assms s'] .
    have a: "lo - 1 + length (fst (snd s')) < n" and b: "lo - 1 + length (fst (snd s')) < n'"
      using False le Suc.prems k' by auto
    show ?thesis
      using Suc.IH[OF a b] by simp
  qed
  then have "map (\<lambda>s'. if lo = 0 \<and> length (fst (snd s')) = length (fst (snd st)) then []
         else rep f g n (lo - 1) (map_option (\<lambda>m. m - 1) hi) s') (f st)
      = map (\<lambda>s'. if lo = 0 \<and> length (fst (snd s')) = length (fst (snd st)) then []
         else rep f g n' (lo - 1) (map_option (\<lambda>m. m - 1) hi) s') (f st)"
    by (intro map_cong) auto
  then show ?case
    unfolding k' rep.simps by (simp only:)
qed

text \<open>The quantifier does not depend on the bound of its recursion once the bound exceeds
  the lower bound plus the length of the text: the bound is never what ends the matching.\<close>

lemma Rep_fuel:
  "lo + length (fst (snd st)) < k \<Longrightarrow> mt ci (Rep lo hi g r) st = rep (mt ci r) g k lo hi st"
  using rep_fuel[OF mt_shrinking, of lo st "Suc (lo + length (fst (snd st)))" k ci r g hi]
  by (simp del: rep.simps)

lemma showDigits_fuel: "n < k \<Longrightarrow> n < k' \<Longrightarrow> showDigits k n = showDigits k' n"
proof (induction k arbitrary: k' n)
  case 0
  then show ?case by simp
next
  case (Suc k)
  then obtain j where k': "k' = Suc j" by (cases k') auto
  show ?case
  proof (cases "n < 10")
    case True
    then show ?thesis by (simp add: k')
  next
    case False
    then have a: "n div 10 < k" and b: "n div 10 < j"
      using Suc.prems k' by auto
    show ?thesis
      using Suc.IH[OF a b] False by (simp add: k')
  qed
qed

lemma mkMatch_post:
  assumes "length (fst (snd st)) \<le> length rest"
  shows "length (m_post (mkMatch pre rest st)) \<le> length rest
         \<and> (m_text (mkMatch pre rest st) \<noteq> [] \<longrightarrow> length (m_post (mkMatch pre rest st)) < length rest)"
  using assms by (cases st) (auto simp: mkMatch_def)

lemma exec_from_post:
  "exec_from ci r pre s = Some m \<Longrightarrow>
   length (m_post m) \<le> length s \<and> (m_text m \<noteq> [] \<longrightarrow> length (m_post m) < length s)"
proof (induction s arbitrary: pre)
  case Nil
  then obtain st sts where st: "mt ci r (lastChar pre, [], []) = st # sts" and m: "m = mkMatch pre [] st"
    by (auto split: list.splits)
  have "length (fst (snd st)) \<le> length ([] :: string)"
    using shrinkingD[OF mt_shrinking, of st ci r "(lastChar pre, [], [])"] st by simp
  from mkMatch_post[OF this, of pre] show ?case unfolding m by simp
next
  case (Cons c cs)
  show ?case
  proof (cases "mt ci r (lastChar pre, c # cs, [])")
    case Nil
    then have "exec_from ci r (c # pre) cs = Some m" using Cons.prems by simp
    from Cons.IH[OF this] show ?thesis by auto
  next
    case (Cons st sts)
    then have m: "m = mkMatch pre (c # cs) st" using Cons.prems by simp
    have "length (fst (snd st)) \<le> length (c # cs)"
      using shrinkingD[OF mt_shrinking, of st ci r "(lastChar pre, c # cs, [])"] Cons by simp
    from mkMatch_post[OF this, of pre] show ?thesis unfolding m by simp
  qed
qed

lemma replace_loop_fuel:
  "length s < k \<Longrightarrow> length s < k' \<Longrightarrow> replace_loop k ci r rp pre s = replace_loop k' ci r rp pre s"
proof (induction k arbitrary: k' pre s)
  case 0
  then show ?case by simp
next
  case (Suc n)
  then obtain n' where k': "k' = Suc n'" by (cases k') auto
  show ?case
  proof (cases "exec_from ci r pre s")
    case None
    then show ?thesis by (simp add: k')
  next
    case (Some m)
    note post = exec_from_post[OF Some]
    show ?thesis
    proof (cases "m_text m = []")
      case True
      show ?thesis
      proof (cases "m_post m")
        case Nil
        then show ?thesis using Some True by (simp add: k' Let_def)
      next
        case (Cons c cs)
        then have "length cs < n" "length cs < n'" using post Suc.prems k' by auto
        then have "replace_loop n ci r rp (c # rev (m_pre m)) cs = replace_loop n' ci r rp (c # rev (m_pre m)) cs"
          by (rule Suc.IH)
        then show ?thesis using Some True Cons by (simp add: k' Let_def)
      qed
    next
      case False
      then have "length (m_post m) < n" "length (m_post m) < n'" using post Suc.prems k' by auto
      then have "replace_loop n ci r rp (rev (m_text m) @ rev (m_pre m)) (m_post m)
                 = replace_loop n' ci r rp (rev (m_text m) @ rev (m_pre m)) (m_post m)"
        by (rule Suc.IH)
      then show ?thesis using Some False by (simp add: k' Let_def)
    qed
  qed
qed

text \<open>Likewise for the replacement of all matches and for the digits of a number.\<close>

lemma rx_replace_all_fuel:
  "length s < k \<Longrightarrow> rx_replace_all re rp s = replace_loop k (fst re) (snd re) rp [] s"
  unfolding rx_replace_all_def by (rule replace_loop_fuel) simp_all

lemma match_loop_fuel:
  "length s < k \<Longrightarrow> length s < k' \<Longrightarrow> match_loop k ci r pre s = match_loop k' ci r pre s"
proof (induction k arbitrary: k' pre s)
  case 0
  then show ?case by simp
next
  case (Suc n)
  then obtain n' where k': "k' = Suc n'" by (cases k') auto
  show ?case
  proof (cases "exec_from ci r pre s")
    case None
    then show ?thesis by (simp add: k')
  next
    case (Some m)
    note post = exec_from_post[OF Some]
    show ?thesis
    proof (cases "m_text m = []")
      case True
      show ?thesis
      proof (cases "m_post m")
        case Nil
        then show ?thesis using Some True by (simp add: k')
      next
        case (Cons c cs)
        then have "length cs < n" "length cs < n'" using post Suc.prems k' by auto
        then have "match_loop n ci r (c # rev (m_pre m)) cs = match_loop n' ci r (c # rev (m_pre m)) cs"
          by (rule Suc.IH)
        then show ?thesis using Some True Cons by (simp add: k')
      qed
    next
      case False
      then have "length (m_post m) < n" "length (m_post m) < n'" using post Suc.prems k' by auto
      then have "match_loop n ci r (rev (m_text m) @ rev (m_pre m)) (m_post m)
                 = match_loop n' ci r (rev (m_text m) @ rev (m_pre m)) (m_post m)"
        by (rule Suc.IH)
      then show ?thesis using Some False by (simp add: k')
    qed
  qed
qed

lemma rx_match_all_fuel:
  "length s < k \<Longrightarrow> rx_match_all re s = match_loop k (fst re) (snd re) [] s"
  unfolding rx_match_all_def by (rule match_loop_fuel) simp_all

lemma showNat_fuel: "n < k \<Longrightarrow> showNat n = showDigits k n"
  unfolding showNat_def by (rule showDigits_fuel) simp_all


subsection \<open>Sets of tags\<close>

lemma distinct_setAdd: "distinct xs \<Longrightarrow> distinct (setAdd xs x)"
  by (simp add: setAdd_def)

lemma distinct_addTags: "distinct xs \<Longrightarrow> distinct (addTags xs adds)"
  unfolding addTags_def
  by (induction adds arbitrary: xs) (auto simp: distinct_setAdd)

text \<open>
  Claim C8. For every description, merchant, category and optional amount, the list that
  \<open>generateTags\<close> returns holds no empty string and no string twice; this is so in the
  current module and in the lenient one.
\<close>

theorem generateTags_no_empty_no_duplicates:
  "[] \<notin> set (generateTags description merchant category amount)
   \<and> distinct (generateTags description merchant category amount)
   \<and> [] \<notin> set (generateTags_lenient description merchant category amount)
   \<and> distinct (generateTags_lenient description merchant category amount)"
  unfolding generateTags_def generateTags_lenient_def Let_def
  by (auto simp: distinct_addTags split: option.splits)

theorem generateTags_no_empty_no_duplicates_witness:
  "[] \<notin> set (generateTags ''UPI/NETFLIX/123'' ''Netflix'' ''Entertainment'' (Some 199))
   \<and> distinct (generateTags ''UPI/NETFLIX/123'' ''Netflix'' ''Entertainment'' (Some 199))
   \<and> [] \<notin> set (generateTags_lenient ''UPI/NETFLIX/123'' ''Netflix'' ''Entertainment'' (Some 199))
   \<and> distinct (generateTags_lenient ''UPI/NETFLIX/123'' ''Netflix'' ''Entertainment'' (Some 199))"
  using generateTags_no_empty_no_duplicates
          [of "''UPI/NETFLIX/123''" "''Netflix''" "''Entertainment''" "Some 199"]
  by blast

subsection \<open>Categories\<close>

lemma categorize_in:
  "c_category (categorizeTransaction d m a rules) \<in> insert ''Others'' (r_category ` set rules)"
  by (induction rules) auto

lemma categorize_lenient_in:
  "c_category (categorizeTransaction_lenient d m a rules)
     \<in> {''Others'', ''Transfer''} \<union> r_category ` set rules"
  by (induction rules) auto

lemma categorize_default:
  "\<forall>r \<in> set rules. \<not> ruleMatches r d m a \<Longrightarrow>
   c_category (categorizeTransaction d m a rules) = ''Others''"
  by (induction rules) auto

lemma categorize_lenient_default:
  "\<forall>r \<in> set rules. \<not> ruleMatches_lenient r d m a \<Longrightarrow> \<not> isPersonalTransfer d m \<Longrightarrow>
   c_category (categorizeTransaction_lenient d m a rules) = ''Others''"
  by (induction rules) auto

lemma default_rules_nonempty: "[] \<notin> r_category ` set DEFAULT_CATEGORY_RULES"
  by (simp add: DEFAULT_CATEGORY_RULES_def)

lemma default_rules_lenient_nonempty: "[] \<notin> r_category ` set DEFAULT_CATEGORY_RULES_lenient"
  by (simp add: DEFAULT_CATEGORY_RULES_lenient_def)

text \<open>
  Claim C7. For every description, merchant and amount, \<open>categorizeTransaction\<close> with the
  default rules returns a category that is not the empty string; when no rule matches
  (and, in the lenient module, the personal-transfer heuristic does not fire either) the
  category is \<open>''Others''\<close>.
\<close>

theorem categorize_never_empty:
  "c_category (categorizeTransaction d m a DEFAULT_CATEGORY_RULES) \<noteq> []
   \<and> c_category (categorizeTransaction_lenient d m a DEFAULT_CATEGORY_RULES_lenient) \<noteq> []
   \<and> ((\<forall>r \<in> set DEFAULT_CATEGORY_RULES. \<not> ruleMatches r d m a)
        \<longrightarrow> c_category (categorizeTransaction d m a DEFAULT_CATEGORY_RULES) = ''Others'')
   \<and> ((\<forall>r \<in> set DEFAULT_CATEGORY_RULES_lenient. \<not> ruleMatches_lenient r d m a)
          \<and> \<not> isPersonalTransfer d m
        \<longrightarrow> c_category (categorizeTransaction_lenient d m a DEFAULT_CATEGORY_RULES_lenient) = ''Others'')"
proof -
  have strict: "c_category (categorizeTransaction d m a DEFAULT_CATEGORY_RULES) \<noteq> []"
    using categorize_in[of d m a DEFAULT_CATEGORY_RULES] default_rules_nonempty by force
  have lenient: "c_category (categorizeTransaction_lenient d m a DEFAULT_CATEGORY_RULES_lenient) \<noteq> []"
    using categorize_lenient_in[of d m a DEFAULT_CATEGORY_RULES_lenient]
      default_rules_lenient_nonempty by force
  show ?thesis
    using strict lenient categorize_default categorize_lenient_default by blast
qed

theorem categorize_never_empty_witness:
  "list_all (\<lambda>r. \<not> ruleMatches r ''CASH DEPOSIT'' ''Unknown'' 500) DEFAULT_CATEGORY_RULES
   \<and> c_category (categorizeTransaction ''CASH DEPOSIT'' ''Unknown'' 500 DEFAULT_CATEGORY_RULES) = ''Others''
   \<and> list_all (\<lambda>r. \<not> ruleMatches_lenient r ''XYZ'' ''Acme Pvt'' 500) DEFAULT_CATEGORY_RULES_lenient
   \<and> \<not> isPersonalTransfer ''XYZ'' ''Acme Pvt''
   \<and> c_category (categorizeTransaction_lenient ''XYZ'' ''Acme Pvt'' 500 DEFAULT_CATEGORY_RULES_lenient) = ''Others''"
proof -
  have h1: "list_all (\<lambda>r. \<not> ruleMatches r ''CASH DEPOSIT'' ''Unknown'' 500) DEFAULT_CATEGORY_RULES"
    by code_simp
  have h2: "list_all (\<lambda>r. \<not> ruleMatches_lenient r ''XYZ'' ''Acme Pvt'' 500) DEFAULT_CATEGORY_RULES_lenient"
    by code_simp
  have h3: "\<not> isPersonalTransfer ''XYZ'' ''Acme Pvt''"
    by code_simp
  show ?thesis
    using h1 h2 h3
      categorize_never_empty[of "''CASH DEPOSIT''" "''Unknown''" 500]
      categorize_never_empty[of "''XYZ''" "''Acme Pvt''" 500]
    by (simp add: list_all_iff)
qed

subsection \<open>Segmentation\<close>

lemma findIndex_Some: "findIndex p xs = Some i \<Longrightarrow> i < length xs \<and> p (xs ! i)"
proof (induction xs arbitrary: i)
  case Nil
  then show ?case by simp
next
  case (Cons x xs)
  then show ?case by (cases "p x") (auto simp: nth_Cons')
qed

lemma headerLoop_date: "o_date (headerLoop di i ts c) = o_date c"
  by (induction ts arbitrary: i c) simp_all

lemma continuationLoop_date: "o_date (continuationLoop ts c) = o_date c"
  by (induction ts arbitrary: c) simp_all

lemma headerLoop_type:
  "\<forall>text \<in> set ts. \<not> rx_test typePattern text \<Longrightarrow> o_type (headerLoop di i ts c) = o_type c"
  by (induction ts arbitrary: i c) simp_all

lemma continuationLoop_type:
  "\<forall>text \<in> set ts. \<not> rx_test typePattern text \<Longrightarrow> o_type (continuationLoop ts c) = o_type c"
  by (induction ts arbitrary: c) simp_all

text \<open>What \<open>finalize\<close> pushes, if anything, comes from an open transaction with a date
  and an amount.\<close>

lemma finalize_cases:
  "finalize cur = [] \<or>
   (\<exists>c d a. cur = Some c \<and> o_date c = Some d \<and> o_amount c = Some a \<and> d \<noteq> [] \<and> a \<noteq> 0
      \<and> finalize cur =
          [\<lparr>p_date = d,
            p_description = cleanDescription (trim (rx_replace_all (False, rx_plus rx_space) '' ''
                              (joinWith '' '' (o_descriptionParts c)))),
            p_amount = a,
            p_type = (case o_type c of None \<Rightarrow> DR | Some t \<Rightarrow> t)\<rparr>]
      \<and> cleanDescription (trim (rx_replace_all (False, rx_plus rx_space) '' ''
            (joinWith '' '' (o_descriptionParts c)))) \<noteq> [])"
  by (auto simp: finalize_def Let_def split: option.splits)

text \<open>The invariant of the loop over the rows: an open transaction holds a date that
  matched the date pattern, and every record pushed so far is complete.\<close>

lemma finalize_complete:
  assumes "case cur of None \<Rightarrow> True | Some c \<Rightarrow> (\<exists>d. o_date c = Some d \<and> rx_test datePattern d)"
      and "t \<in> set (finalize cur)"
  shows "p_date t \<noteq> [] \<and> rx_test datePattern (p_date t) \<and> p_amount t \<noteq> 0 \<and> p_description t \<noteq> []"
  using finalize_cases[of cur] assms by auto

lemma processRow_inv:
  assumes "case fst st of None \<Rightarrow> True | Some c \<Rightarrow> (\<exists>d. o_date c = Some d \<and> rx_test datePattern d)"
      and "\<forall>t \<in> set (snd st).
             p_date t \<noteq> [] \<and> rx_test datePattern (p_date t) \<and> p_amount t \<noteq> 0 \<and> p_description t \<noteq> []"
  shows "(case fst (processRow st row) of None \<Rightarrow> True
          | Some c \<Rightarrow> (\<exists>d. o_date c = Some d \<and> rx_test datePattern d))
         \<and> (\<forall>t \<in> set (snd (processRow st row)).
               p_date t \<noteq> [] \<and> rx_test datePattern (p_date t) \<and> p_amount t \<noteq> 0 \<and> p_description t \<noteq> [])"
proof (cases st)
  case (Pair cur txs)
  show ?thesis
  proof (cases "findIndex (rx_test datePattern) (rowText row)")
    case None
    then show ?thesis
      using assms Pair
      by (auto simp: processRow_def Let_def continuationLoop_date split: option.splits)
  next
    case (Some di)
    then have "rx_test datePattern (rowText row ! di)"
      using findIndex_Some by blast
    then show ?thesis
      using assms Pair Some finalize_complete[of cur]
      by (auto simp: processRow_def Let_def headerLoop_date split: option.splits)
  qed
qed

lemma foldl_processRow_inv:
  assumes "case fst st of None \<Rightarrow> True | Some c \<Rightarrow> (\<exists>d. o_date c = Some d \<and> rx_test datePattern d)"
      and "\<forall>t \<in> set (snd st).
             p_date t \<noteq> [] \<and> rx_test datePattern (p_date t) \<and> p_amount t \<noteq> 0 \<and> p_description t \<noteq> []"
  shows "(case fst (foldl processRow st rows) of None \<Rightarrow> True
          | Some c \<Rightarrow> (\<exists>d. o_date c = Some d \<and> rx_test datePattern d))
         \<and> (\<forall>t \<in> set (snd (foldl processRow st rows)).
               p_date t \<noteq> [] \<and> rx_test datePattern (p_date t) \<and> p_amount t \<noteq> 0 \<and> p_description t \<noteq> [])"
  using assms
proof (induction rows arbitrary: st)
  case Nil
  then show ?case by simp
next
  case (Cons row rows)
  from processRow_inv[OF Cons.prems, of row] Cons.IH[of "processRow st row"]
  show ?case by simp
qed

lemma segmentRows_complete:
  assumes "t \<in> set (segmentRows rows)"
  shows "p_date t \<noteq> [] \<and> rx_test datePattern (p_date t) \<and> p_amount t \<noteq> 0 \<and> p_description t \<noteq> []"
proof -
  obtain cur txs where st: "foldl processRow (None, []) rows = (cur, txs)"
    by (cases "foldl processRow (None, []) rows")
  have inv: "(case fst (foldl processRow (None, []) rows) of None \<Rightarrow> True
          | Some c \<Rightarrow> (\<exists>d. o_date c = Some d \<and> rx_test datePattern d))
         \<and> (\<forall>t \<in> set (snd (foldl processRow (None, []) rows)).
               p_date t \<noteq> [] \<and> rx_test datePattern (p_date t) \<and> p_amount t \<noteq> 0 \<and> p_description t \<noteq> [])"
    by (rule foldl_processRow_inv) simp_all
  from assms st have "t \<in> set txs \<or> t \<in> set (finalize cur)"
    by (auto simp: segmentRows_def)
  then show ?thesis
  proof
    assume "t \<in> set txs"
    then show ?thesis using inv st by simp
  next
    assume "t \<in> set (finalize cur)"
    then show ?thesis using inv st finalize_complete[of cur t] by simp
  qed
qed

text \<open>
  Claim C1. For every sequence of rows the segmenter processes, every record it pushes
  has a date (a text that matched the date pattern), an amount and a cleaned description
  that is not empty; what \<open>finalize\<close> pushes carries the date and the amount of the open
  transaction, and an open transaction without a date or without an amount is never
  pushed, at a following date anchor or at the end of the page.
\<close>

theorem emitted_records_complete:
  "(\<forall>t \<in> set (segmentRows rows).
       p_date t \<noteq> [] \<and> rx_test datePattern (p_date t) \<and> p_amount t \<noteq> 0 \<and> p_description t \<noteq> [])
   \<and> (\<forall>t \<in> set (extractTransactionsFromPage items).
       p_date t \<noteq> [] \<and> rx_test datePattern (p_date t) \<and> p_amount t \<noteq> 0 \<and> p_description t \<noteq> [])
   \<and> (\<forall>t \<in> set (finalize cur).
        \<exists>c. cur = Some c \<and> o_date c = Some (p_date t) \<and> o_amount c = Some (p_amount t))
   \<and> (o_date c = None \<or> o_amount c = None \<or> o_amount c = Some 0 \<longrightarrow> finalize (Some c) = [])"
proof -
  have a: "\<forall>t \<in> set (segmentRows rows).
       p_date t \<noteq> [] \<and> rx_test datePattern (p_date t) \<and> p_amount t \<noteq> 0 \<and> p_description t \<noteq> []"
    for rows
    using segmentRows_complete by blast
  have b: "\<forall>t \<in> set (finalize cur).
        \<exists>c. cur = Some c \<and> o_date c = Some (p_date t) \<and> o_amount c = Some (p_amount t)"
    using finalize_cases[of cur] by auto
  have c: "o_date c = None \<or> o_amount c = None \<or> o_amount c = Some 0 \<longrightarrow> finalize (Some c) = []"
    by (auto simp: finalize_def split: option.splits)
  show ?thesis
    using a[of rows] a[of "extractRows items"] b c
    unfolding extractTransactionsFromPage_def by blast
qed

lemma segmentRows_netflixRow:
  "segmentRows [netflixRow 700] =
     [\<lparr>p_date = ''15-03-2024'', p_description = ''UPI/NETFLIX/123'', p_amount = 199, p_type = DR\<rparr>]"
  by code_simp

theorem emitted_records_complete_witness:
  "segmentRows [netflixRow 700] =
     [\<lparr>p_date = ''15-03-2024'', p_description = ''UPI/NETFLIX/123'', p_amount = 199, p_type = DR\<rparr>]
   \<and> rx_test datePattern ''15-03-2024''
   \<and> finalize (Some \<lparr>o_date = Some ''15-03-2024'', o_descriptionParts = [''UPI/NETFLIX/123''],
                      o_amount = None, o_type = Some DR\<rparr>) = []"
  using segmentRows_netflixRow
    emitted_records_complete[of "[netflixRow 700]" "[]" None
      "\<lparr>o_date = Some ''15-03-2024'', o_descriptionParts = [''UPI/NETFLIX/123''],
        o_amount = None, o_type = Some DR\<rparr>"]
  by simp

lemma processRow_header_type:
  assumes "findIndex (rx_test datePattern) (rowText h) \<noteq> None"
      and "\<forall>text \<in> set (rowText h). \<not> rx_test typePattern text"
  shows "\<exists>c. fst (processRow st h) = Some c \<and> o_type c = None"
proof -
  obtain di where di: "findIndex (rx_test datePattern) (rowText h) = Some di"
    using assms(1) by auto
  then have "rowText h \<noteq> []" by auto
  then show ?thesis
    using di assms(2) by (cases st) (simp add: processRow_def Let_def headerLoop_type)
qed

lemma processRow_continuation_type:
  assumes "findIndex (rx_test datePattern) (rowText r) = None"
      and "\<forall>text \<in> set (rowText r). \<not> rx_test typePattern text"
      and "fst st = Some c" and "o_type c = None"
  shows "\<exists>c'. fst (processRow st r) = Some c' \<and> o_type c' = None"
  using assms by (cases st) (auto simp: processRow_def Let_def continuationLoop_type)

lemma foldl_continuation_type:
  assumes "\<forall>r \<in> set cs. findIndex (rx_test datePattern) (rowText r) = None"
      and "\<forall>r \<in> set cs. \<forall>text \<in> set (rowText r). \<not> rx_test typePattern text"
      and "fst st = Some c" and "o_type c = None"
  shows "\<exists>c'. fst (foldl processRow st cs) = Some c' \<and> o_type c' = None"
  using assms
proof (induction cs arbitrary: st c)
  case Nil
  then show ?case by simp
next
  case (Cons r cs)
  obtain c' where "fst (processRow st r) = Some c'" and "o_type c' = None"
    using processRow_continuation_type[of r st c] Cons.prems by auto
  then show ?case
    using Cons.IH[of "processRow st r" c'] Cons.prems by simp
qed

text \<open>
  Claim C9. Take a row with a date anchor and the continuation rows after it, up to the
  next anchor or the end of the page. If no text of these rows is a DR or CR token, the
  record finalized from them, if one is pushed, has the type \<open>DR\<close>.
\<close>

theorem default_type_is_DR:
  assumes "findIndex (rx_test datePattern) (rowText h) \<noteq> None"
      and "\<forall>r \<in> set cs. findIndex (rx_test datePattern) (rowText r) = None"
      and "\<forall>r \<in> set (h # cs). \<forall>text \<in> set (rowText r). \<not> rx_test typePattern text"
  shows "\<forall>t \<in> set (finalize (fst (foldl processRow st (h # cs)))). p_type t = DR"
proof -
  obtain c where c: "fst (processRow st h) = Some c" "o_type c = None"
    using processRow_header_type[of h st] assms by auto
  obtain c' where c': "fst (foldl processRow (processRow st h) cs) = Some c'" "o_type c' = None"
    using foldl_continuation_type[of cs "processRow st h" c] assms c by auto
  show ?thesis
    using c' finalize_cases[of "Some c'"] by auto
qed

lemma untypedRows_facts:
  "findIndex (rx_test datePattern) (rowText (hd untypedRows)) \<noteq> None
   \<and> list_all (\<lambda>r. findIndex (rx_test datePattern) (rowText r) = None) (tl untypedRows)
   \<and> list_all (\<lambda>r. list_all (\<lambda>text. \<not> rx_test typePattern text) (rowText r)) untypedRows
   \<and> finalize (fst (foldl processRow (None, []) untypedRows)) =
       [\<lparr>p_date = ''16/03/2024'', p_description = ''IMPS/123/Some One HDFC BANK'',
         p_amount = 2501 / 2, p_type = DR\<rparr>]"
  by code_simp

theorem default_type_is_DR_witness:
  "findIndex (rx_test datePattern) (rowText (hd untypedRows)) \<noteq> None
   \<and> list_all (\<lambda>r. findIndex (rx_test datePattern) (rowText r) = None) (tl untypedRows)
   \<and> list_all (\<lambda>r. list_all (\<lambda>text. \<not> rx_test typePattern text) (rowText r)) untypedRows
   \<and> finalize (fst (foldl processRow (None, []) untypedRows)) =
       [\<lparr>p_date = ''16/03/2024'', p_description = ''IMPS/123/Some One HDFC BANK'',
         p_amount = 2501 / 2, p_type = DR\<rparr>]
   \<and> list_all (\<lambda>t. p_type t = DR) (finalize (fst (foldl processRow (None, []) untypedRows)))"
proof -
  have rows: "hd untypedRows # tl untypedRows = untypedRows"
    by (simp add: untypedRows_def)
  have h1: "findIndex (rx_test datePattern) (rowText (hd untypedRows)) \<noteq> None"
    using untypedRows_facts by simp
  have h2: "\<forall>r \<in> set (tl untypedRows). findIndex (rx_test datePattern) (rowText r) = None"
    using untypedRows_facts by (simp add: list_all_iff)
  have h3: "\<forall>r \<in> set (hd untypedRows # tl untypedRows).
              \<forall>text \<in> set (rowText r). \<not> rx_test typePattern text"
    unfolding rows using untypedRows_facts by (simp add: list_all_iff)
  from default_type_is_DR[OF h1 h2 h3, of "(None, [])"]
  have "\<forall>t \<in> set (finalize (fst (foldl processRow (None, []) untypedRows))). p_type t = DR"
    unfolding rows .
  then show ?thesis
    using untypedRows_facts by (simp add: list_all_iff)
qed

subsection \<open>Conversion\<close>

lemma mapIndexed_Inr:
  "mapIndexed f i txs = Inr out \<Longrightarrow>
   length out = length txs \<and> (\<forall>j < length txs. f (txs ! j) (i + j) = Inr (out ! j))"
proof (induction txs arbitrary: i out)
  case Nil
  then show ?case by simp
next
  case (Cons tx txs)
  from Cons.prems obtain t ts where t: "f tx i = Inr t"
    and ts: "mapIndexed f (Suc i) txs = Inr ts" and out: "out = t # ts"
    by (auto split: sum.splits)
  from Cons.IH[OF ts] have len: "length ts = length txs"
    and rest: "\<forall>j < length txs. f (txs ! j) (Suc i + j) = Inr (ts ! j)"
    by auto
  show ?case
  proof (intro conjI allI impI)
    show "length out = length (tx # txs)"
      using out len by simp
    fix j
    assume "j < length (tx # txs)"
    then show "f ((tx # txs) ! j) (i + j) = Inr (out ! j)"
      using t rest out by (cases j) auto
  qed
qed

lemma mapIndexed_returns:
  "(\<exists>out. mapIndexed f i txs = Inr out) \<longleftrightarrow> (\<forall>j < length txs. \<exists>t. f (txs ! j) (i + j) = Inr t)"
proof (induction txs arbitrary: i)
  case Nil
  then show ?case by simp
next
  case (Cons tx txs)
  have "(\<forall>j < length (tx # txs). \<exists>t. f ((tx # txs) ! j) (i + j) = Inr t)
        \<longleftrightarrow> (\<exists>t. f tx i = Inr t) \<and> (\<forall>j < length txs. \<exists>t. f (txs ! j) (Suc i + j) = Inr t)"
    by (auto simp: All_less_Suc2)
  then show ?case
    using Cons.IH[of "Suc i"] by (auto split: sum.splits)
qed

lemma convertOne_Inr:
  "convertOne acct bank tx i = Inr t \<Longrightarrow>
   t_amount t = p_amount tx \<and> t_description t = p_description tx
   \<and> t_type t = (if p_type tx = DR then Debit else Credit) \<and> \<not> t_isVerified t
   \<and> parseDate (p_date tx) = Inr (t_date t)"
  unfolding convertOne_def Let_def by (cases "parseDate (p_date tx)") auto

lemma convertOne_returns:
  "(\<exists>t. convertOne acct bank tx i = Inr t) \<longleftrightarrow> (\<exists>d. parseDate (p_date tx) = Inr d)"
  unfolding convertOne_def Let_def by (cases "parseDate (p_date tx)") auto

text \<open>
  Claim C10, amended. \<open>convertToTransactionInterface\<close> returns a list exactly when the
  date of every parsed transaction parses (otherwise the error of \<open>parseDate\<close> ends the
  call). The list it returns has the length and the order of the input, and at each
  position the amount and the description of the input, the type \<open>Debit\<close> if and only if
  the input's type is \<open>DR\<close> (otherwise \<open>Credit\<close>), and \<open>isVerified\<close> false.
\<close>

theorem convert_when_dates_parse:
  "((\<exists>out. convertToTransactionInterface txs acct bank = Inr out)
      \<longleftrightarrow> (\<forall>tx \<in> set txs. \<exists>d. parseDate (p_date tx) = Inr d))
   \<and> (convertToTransactionInterface txs acct bank = Inr out \<longrightarrow>
        length out = length txs
        \<and> (\<forall>i < length txs.
              t_amount (out ! i) = p_amount (txs ! i)
              \<and> t_description (out ! i) = p_description (txs ! i)
              \<and> (t_type (out ! i) = Debit \<longleftrightarrow> p_type (txs ! i) = DR)
              \<and> (t_type (out ! i) = Credit \<longleftrightarrow> p_type (txs ! i) \<noteq> DR)
              \<and> \<not> t_isVerified (out ! i)))"
proof (intro conjI impI)
  show "(\<exists>out. convertToTransactionInterface txs acct bank = Inr out)
      \<longleftrightarrow> (\<forall>tx \<in> set txs. \<exists>d. parseDate (p_date tx) = Inr d)"
    unfolding convertToTransactionInterface_def mapIndexed_returns convertOne_returns
    by (auto simp: all_set_conv_all_nth)
next
  assume a: "convertToTransactionInterface txs acct bank = Inr out"
  from mapIndexed_Inr[OF a[unfolded convertToTransactionInterface_def]]
  have len: "length out = length txs"
    and each: "\<forall>j < length txs. convertOne acct bank (txs ! j) (0 + j) = Inr (out ! j)"
    by auto
  show "length out = length txs"
    by (rule len)
  show "\<forall>i < length txs.
              t_amount (out ! i) = p_amount (txs ! i)
              \<and> t_description (out ! i) = p_description (txs ! i)
              \<and> (t_type (out ! i) = Debit \<longleftrightarrow> p_type (txs ! i) = DR)
              \<and> (t_type (out ! i) = Credit \<longleftrightarrow> p_type (txs ! i) \<noteq> DR)
              \<and> \<not> t_isVerified (out ! i)"
  proof (intro allI impI)
    fix i
    assume "i < length txs"
    then have "convertOne acct bank (txs ! i) (0 + i) = Inr (out ! i)"
      using each by blast
    from convertOne_Inr[OF this]
    show "t_amount (out ! i) = p_amount (txs ! i)
              \<and> t_description (out ! i) = p_description (txs ! i)
              \<and> (t_type (out ! i) = Debit \<longleftrightarrow> p_type (txs ! i) = DR)
              \<and> (t_type (out ! i) = Credit \<longleftrightarrow> p_type (txs ! i) \<noteq> DR)
              \<and> \<not> t_isVerified (out ! i)"
      by auto
  qed
qed

lemma convert_sampleParsed:
  "convertToTransactionInterface sampleParsed ''000123'' ''ICICI'' =
     Inr [\<lparr>t_id = ''icici_000123_15032024_0'',
           t_date = \<lparr>utcFullYear = 2024, utcMonth = 2, utcDate = 15, utcHours = 12,
                     utcMinutes = 0, utcSeconds = 0, utcMilliseconds = 0\<rparr>,
           t_amount = 199, t_description = ''UPI/NETFLIX/123'', t_type = Debit,
           t_category = ''Entertainment'', t_subcategory = Some ''Streaming Services'',
           t_merchant = ''Netflix'', t_account = ''000123'', t_paymentMethod = ''UPI'',
           t_isRecurring = True, t_tags = [''entertainment'', ''upi''], t_notes = None,
           t_isVerified = False\<rparr>,
          \<lparr>t_id = ''icici_000123_16032024_1'',
           t_date = \<lparr>utcFullYear = 2024, utcMonth = 2, utcDate = 16, utcHours = 12,
                     utcMinutes = 0, utcSeconds = 0, utcMilliseconds = 0\<rparr>,
           t_amount = 2501 / 2, t_description = ''IMPS/123/Some One HDFC BANK'', t_type = Credit,
           t_category = ''Others'', t_subcategory = None,
           t_merchant = ''Some One HDFC BANK'', t_account = ''000123'', t_paymentMethod = ''IMPS'',
           t_isRecurring = False, t_tags = [''others'', ''imps'', ''hdfc-bank''], t_notes = None,
           t_isVerified = False\<rparr>]"
  by code_simp

theorem convert_when_dates_parse_witness:
  "(case convertToTransactionInterface sampleParsed ''000123'' ''ICICI'' of
      Inl e \<Rightarrow> False
    | Inr out \<Rightarrow>
        length out = 2
        \<and> map t_amount out = map p_amount sampleParsed
        \<and> map t_description out = map p_description sampleParsed
        \<and> map t_type out = [Debit, Credit]
        \<and> map p_type sampleParsed = [DR, CR]
        \<and> map t_isVerified out = [False, False])"
  using convert_sampleParsed
    convert_when_dates_parse[of sampleParsed "''000123''" "''ICICI''"]
  by (simp add: sampleParsed_def)

text \<open>
  Claim C10 as stated fails: a parsed transaction whose date has the shape of the date
  pattern but names no day of the calendar makes the conversion throw, so no list is
  returned.
\<close>

theorem convert_throws_on_bad_date:
  "convertToTransactionInterface badDateParsed ''000123'' ''ICICI''
     = Inl (InvalidDateFormat ''31-02-2024'')"
  by code_simp


subsection \<open>Dates\<close>

lemma daysInMonth_bounds: "28 \<le> daysInMonth y m \<and> daysInMonth y m \<le> 31"
  by (simp add: daysInMonth_def)

lemma toInteger_nonneg: "0 \<le> q \<Longrightarrow> toInteger q = \<lfloor>q\<rfloor>"
  by (simp add: toInteger_def)

text \<open>Once the three numbers have passed the range test, the round trip through
  \<^verbatim>\<open>Date.UTC\<close> succeeds exactly for the valid dates.\<close>

lemma checked_date:
  assumes "1 \<le> day" and "day \<le> 31" and "1 \<le> month" and "month \<le> 12" and "1900 \<le> year"
  shows "(case utcNoon (toInteger year) (toInteger (month - 1)) (toInteger day) of
            None \<Rightarrow> Inl (InvalidDateFormat s)
          | Some date \<Rightarrow>
              if of_int (utcDate date) \<noteq> day \<or> of_int (utcMonth date) \<noteq> month - 1
                 \<or> of_int (utcFullYear date) \<noteq> year
              then Inl (InvalidDateFormat s)
              else Inr date)
         = (if validDate day month year then Inr (noonUTC \<lfloor>year\<rfloor> \<lfloor>month\<rfloor> \<lfloor>day\<rfloor>)
            else Inl (InvalidDateFormat s))"
proof -
  define Y where "Y = \<lfloor>year\<rfloor>"
  define M where "M = \<lfloor>month\<rfloor> - 1"
  define D where "D = \<lfloor>day\<rfloor>"
  have ty: "toInteger year = Y"
    using assms by (simp add: toInteger_nonneg Y_def)
  have tm: "toInteger (month - 1) = M"
    using assms by (simp add: toInteger_nonneg M_def)
  have td: "toInteger day = D"
    using assms by (simp add: toInteger_nonneg D_def)
  have Dle: "of_int D \<le> day"
    by (simp add: D_def)
  have dim: "28 \<le> daysInMonth Y M" "daysInMonth Y M \<le> 31"
    using daysInMonth_bounds by auto
  show ?thesis
  proof (cases "D \<le> daysInMonth Y M")
    case True
    then show ?thesis
      unfolding ty tm td utcNoon_def Let_def validDate_def isWhole_def noonUTC_def
      using assms by (auto simp: Y_def M_def D_def)
  next
    case False
    have "(of_int (D - daysInMonth Y M) :: rat) < of_int D"
      using dim by simp
    then have "of_int (D - daysInMonth Y M) \<noteq> day"
      using Dle by linarith
    then show ?thesis
      unfolding ty tm td utcNoon_def Let_def validDate_def isWhole_def noonUTC_def
      using False by (auto simp: Y_def M_def D_def)
  qed
qed

lemma parseDate_valid:
  "parseDate s =
     (case map jsNumber (splitOn (\<lambda>c. c = CHR ''-'' \<or> c = CHR ''/'') s) of
        [Some day, Some month, Some year] \<Rightarrow>
          if validDate day month year then Inr (noonUTC \<lfloor>year\<rfloor> \<lfloor>month\<rfloor> \<lfloor>day\<rfloor>)
          else Inl (InvalidDateFormat s)
      | _ \<Rightarrow> Inl (InvalidDateFormat s))"
proof -
  have inner:
    "(if day = 0 \<or> month = 0 \<or> year = 0 \<or> day < 1 \<or> 31 < day \<or> month < 1 \<or> 12 < month \<or> year < 1900
      then Inl (InvalidDateFormat s)
      else (case utcNoon (toInteger year) (toInteger (month - 1)) (toInteger day) of
              None \<Rightarrow> Inl (InvalidDateFormat s)
            | Some date \<Rightarrow>
                if of_int (utcDate date) \<noteq> day \<or> of_int (utcMonth date) \<noteq> month - 1
                   \<or> of_int (utcFullYear date) \<noteq> year
                then Inl (InvalidDateFormat s)
                else Inr date))
     = (if validDate day month year then Inr (noonUTC \<lfloor>year\<rfloor> \<lfloor>month\<rfloor> \<lfloor>day\<rfloor>)
        else Inl (InvalidDateFormat s))"
    for day month year
  proof (cases "day < 1 \<or> 31 < day \<or> month < 1 \<or> 12 < month \<or> year < 1900")
    case True
    then have "\<not> validDate day month year"
      by (auto simp: validDate_def)
    then show ?thesis
      using True by auto
  next
    case False
    then have r: "1 \<le> day" "day \<le> 31" "1 \<le> month" "month \<le> 12" "1900 \<le> year"
      by auto
    then have "\<not> (day = 0 \<or> month = 0 \<or> year = 0 \<or> day < 1 \<or> 31 < day \<or> month < 1
                  \<or> 12 < month \<or> year < 1900)"
      by auto
    then show ?thesis
      using checked_date[OF r, of s] by simp
  qed
  show ?thesis
    unfolding parseDate_def inner by (simp split: list.splits option.splits)
qed

lemma parseDate_examples:
  "parseDate ''15-03-2024'' = Inr (noonUTC 2024 3 15)
   \<and> parseDate ''15/03/2024'' = Inr (noonUTC 2024 3 15)
   \<and> parseDate ''32-01-2024'' = Inl (InvalidDateFormat ''32-01-2024'')
   \<and> parseDate ''00-13-2024'' = Inl (InvalidDateFormat ''00-13-2024'')
   \<and> parseDate ''01-01-1899'' = Inl (InvalidDateFormat ''01-01-1899'')"
  by code_simp

text \<open>
  Claim C3. \<open>parseDate\<close> maps \<open>''15-03-2024''\<close> and \<open>''15/03/2024''\<close> to the same date,
  15 March 2024, and throws the invalid-date error for \<open>''32-01-2024''\<close>, \<open>''00-13-2024''\<close>
  and \<open>''01-01-1899''\<close>. In general it throws whenever the text does not split into three
  numbers, whenever day, month or year fall outside 1 to 31, 1 to 12 or from 1900, and
  whenever they fail the round trip through the calendar, that is, name no valid date;
  otherwise it returns that date at noon UTC.
\<close>

theorem parseDate_spec:
  "parseDate ''15-03-2024'' = Inr (noonUTC 2024 3 15)
   \<and> parseDate ''15/03/2024'' = parseDate ''15-03-2024''
   \<and> parseDate ''32-01-2024'' = Inl (InvalidDateFormat ''32-01-2024'')
   \<and> parseDate ''00-13-2024'' = Inl (InvalidDateFormat ''00-13-2024'')
   \<and> parseDate ''01-01-1899'' = Inl (InvalidDateFormat ''01-01-1899'')
   \<and> parseDate s =
       (case map jsNumber (splitOn (\<lambda>c. c = CHR ''-'' \<or> c = CHR ''/'') s) of
          [Some day, Some month, Some year] \<Rightarrow>
            if validDate day month year then Inr (noonUTC \<lfloor>year\<rfloor> \<lfloor>month\<rfloor> \<lfloor>day\<rfloor>)
            else Inl (InvalidDateFormat s)
        | _ \<Rightarrow> Inl (InvalidDateFormat s))
   \<and> (map jsNumber (splitOn (\<lambda>c. c = CHR ''-'' \<or> c = CHR ''/'') s) = [Some d, Some m, Some y]
        \<and> (d < 1 \<or> 31 < d \<or> m < 1 \<or> 12 < m \<or> y < 1900)
      \<longrightarrow> parseDate s = Inl (InvalidDateFormat s))
   \<and> (parseDate s = Inr date \<longrightarrow>
        utcHours date = 12 \<and> utcMinutes date = 0 \<and> utcSeconds date = 0 \<and> utcMilliseconds date = 0)"
proof -
  have range: "map jsNumber (splitOn (\<lambda>c. c = CHR ''-'' \<or> c = CHR ''/'') s) = [Some d, Some m, Some y]
        \<and> (d < 1 \<or> 31 < d \<or> m < 1 \<or> 12 < m \<or> y < 1900)
      \<longrightarrow> parseDate s = Inl (InvalidDateFormat s)"
    by (auto simp: parseDate_def)
  have noon: "parseDate s = Inr date \<longrightarrow>
        utcHours date = 12 \<and> utcMinutes date = 0 \<and> utcSeconds date = 0 \<and> utcMilliseconds date = 0"
    unfolding parseDate_valid[of s]
    by (auto simp: noonUTC_def split: list.splits option.splits if_splits)
  show ?thesis
    using parseDate_examples parseDate_valid[of s] range noon by simp
qed

lemma leap_day_facts:
  "map jsNumber (splitOn (\<lambda>c. c = CHR ''-'' \<or> c = CHR ''/'') ''29-02-2024'') = [Some 29, Some 2, Some 2024]
   \<and> validDate 29 2 2024
   \<and> map jsNumber (splitOn (\<lambda>c. c = CHR ''-'' \<or> c = CHR ''/'') ''29-02-2023'') = [Some 29, Some 2, Some 2023]
   \<and> \<not> validDate 29 2 2023
   \<and> map jsNumber (splitOn (\<lambda>c. c = CHR ''-'' \<or> c = CHR ''/'') ''32-01-2024'') = [Some 32, Some 1, Some 2024]"
  by code_simp

theorem parseDate_spec_witness:
  "parseDate ''29-02-2024'' = Inr (noonUTC 2024 2 29)
   \<and> parseDate ''29-02-2023'' = Inl (InvalidDateFormat ''29-02-2023'')
   \<and> map jsNumber (splitOn (\<lambda>c. c = CHR ''-'' \<or> c = CHR ''/'') ''32-01-2024'') = [Some 32, Some 1, Some 2024]
   \<and> parseDate ''32-01-2024'' = Inl (InvalidDateFormat ''32-01-2024'')
   \<and> utcHours (noonUTC 2024 2 29) = 12"
  using leap_day_facts
    parseDate_spec[of "''29-02-2024''" 29 2 2024 "noonUTC 2024 2 29"]
    parseDate_spec[of "''29-02-2023''" 29 2 2023 "noonUTC 2023 2 29"]
    parseDate_spec[of "''32-01-2024''" 32 1 2024 "noonUTC 2024 1 32"]
  by (simp add: noonUTC_def)


subsection \<open>Rows\<close>

lemma groupLoop_concat: "concat (groupLoop s rows cur lastY) = concat rows @ cur @ s"
  by (induction s arbitrary: rows cur lastY) (auto simp: Let_def)

lemma groupLoop_nonempty: "[] \<notin> set rows \<Longrightarrow> [] \<notin> set (groupLoop s rows cur lastY)"
  by (induction s arbitrary: rows cur lastY) (auto simp: Let_def)

lemma groupLoop_within:
  assumes "\<forall>r \<in> set rows. successively joins r" and "successively joins cur"
      and "cur \<noteq> [] \<longrightarrow> lastY = mathRound (f_y (last cur))"
  shows "\<forall>r \<in> set (groupLoop s rows cur lastY). successively joins r"
  using assms
proof (induction s arbitrary: rows cur lastY)
  case Nil
  then show ?case by auto
next
  case (Cons item rest)
  let ?y = "mathRound (f_y item)"
  show ?case
  proof (cases "lastY = - 1 \<or> \<bar>?y - lastY\<bar> \<le> Y_TOLERANCE")
    case True
    have "successively joins (cur @ [item])"
      using Cons.prems True by (auto simp: successively_append_iff joins_def)
    then have "\<forall>r \<in> set (groupLoop rest rows (cur @ [item]) ?y). successively joins r"
      using Cons.prems by (intro Cons.IH) auto
    then show ?thesis using True by (simp add: Let_def)
  next
    case False
    have "\<forall>r \<in> set (groupLoop rest (if 0 < length cur then rows @ [cur] else rows) [item] ?y). successively joins r"
      using Cons.prems by (intro Cons.IH) auto
    then show ?thesis using False by (simp add: Let_def)
  qed
qed

lemma groupLoop_boundaries:
  assumes "successively (\<lambda>r1 r2. \<not> joins (last r1) (hd r2)) rows"
      and "rows \<noteq> [] \<and> cur \<noteq> [] \<longrightarrow> \<not> joins (last (last rows)) (hd cur)"
      and "cur \<noteq> [] \<longrightarrow> lastY = mathRound (f_y (last cur))"
      and "cur = [] \<longrightarrow> lastY = - 1 \<and> rows = []"
  shows "successively (\<lambda>r1 r2. \<not> joins (last r1) (hd r2)) (groupLoop s rows cur lastY)"
  using assms
proof (induction s arbitrary: rows cur lastY)
  case Nil
  then show ?case by (auto simp: successively_append_iff)
next
  case (Cons item rest)
  let ?y = "mathRound (f_y item)"
  show ?case
  proof (cases "lastY = - 1 \<or> \<bar>?y - lastY\<bar> \<le> Y_TOLERANCE")
    case True
    have "successively (\<lambda>r1 r2. \<not> joins (last r1) (hd r2)) (groupLoop rest rows (cur @ [item]) ?y)"
      using Cons.prems by (intro Cons.IH) (auto simp: hd_append)
    then show ?thesis using True by (simp add: Let_def)
  next
    case False
    then have cur: "cur \<noteq> []" using Cons.prems(4) by auto
    then have nl: "\<not> joins (last cur) item"
      using False Cons.prems(3) by (auto simp: joins_def)
    have "successively (\<lambda>r1 r2. \<not> joins (last r1) (hd r2)) (groupLoop rest (rows @ [cur]) [item] ?y)"
      using Cons.prems cur nl by (intro Cons.IH) (auto simp: successively_append_iff)
    then show ?thesis using False cur by (simp add: Let_def)
  qed
qed

text \<open>The insertion sort returns a permutation of the items in which no item comes after
  its successor under the comparison.\<close>

lemma compareItems_antisym: "compareItems b a = - compareItems a b"
  by (simp add: compareItems_def Let_def abs_minus_commute)

lemma insertItem_nonempty: "insertItem a xs \<noteq> []"
  by (cases xs) auto

lemma hd_insertItem: "hd (insertItem a xs) = (if xs = [] \<or> compareItems a (hd xs) \<le> 0 then a else hd xs)"
  by (cases xs) auto

lemma insertItem_ordered:
  "successively (\<lambda>a b. compareItems a b \<le> 0) xs \<Longrightarrow>
   successively (\<lambda>a b. compareItems a b \<le> 0) (insertItem a xs)"
proof (induction xs)
  case Nil
  then show ?case by simp
next
  case (Cons b bs)
  show ?case
  proof (cases "compareItems a b \<le> 0")
    case True
    then show ?thesis using Cons.prems by (simp add: successively_Cons)
  next
    case False
    then have ba: "compareItems b a \<le> 0" using compareItems_antisym[of b a] by simp
    have "successively (\<lambda>a b. compareItems a b \<le> 0) bs"
      using Cons.prems by (cases bs) (auto simp: successively_Cons)
    then have "successively (\<lambda>a b. compareItems a b \<le> 0) (insertItem a bs)"
      by (rule Cons.IH)
    then show ?thesis using False ba Cons.prems insertItem_nonempty[of a bs]
      by (auto simp: successively_Cons hd_insertItem)
  qed
qed

lemma sortItems_ordered: "successively (\<lambda>a b. compareItems a b \<le> 0) (sortItems items)"
  unfolding sortItems_def by (induction items) (simp_all add: insertItem_ordered)

lemma mset_insertItem: "mset (insertItem a xs) = add_mset a (mset xs)"
  by (induction xs) auto

lemma mset_sortItems: "mset (sortItems items) = mset items"
  unfolding sortItems_def by (induction items) (simp_all add: mset_insertItem)

lemma successively_concat:
  "[] \<notin> set rows \<Longrightarrow> successively Q (concat rows) \<Longrightarrow>
   successively (\<lambda>r1 r2. Q (last r1) (hd r2)) rows"
proof (induction rows)
  case Nil
  then show ?case by simp
next
  case (Cons r rs)
  then show ?case
    by (cases rs) (auto simp: successively_append_iff successively_Cons)
qed

lemma successively_conj:
  "successively P xs \<Longrightarrow> successively Q xs \<Longrightarrow> successively (\<lambda>a b. P a b \<and> Q a b) xs"
  by (induction xs) (auto simp: successively_Cons)

lemma mathRound_bounds: "of_int (mathRound q) \<le> q + 1 / 2 \<and> q - 1 / 2 < of_int (mathRound q)"
  unfolding mathRound_def by linarith

lemma far_and_ordered:
  assumes "\<not> nearY a b" and "compareItems a b \<le> 0"
  shows "f_y b < f_y a"
proof -
  have far: "5 < \<bar>mathRound (f_y b) - mathRound (f_y a)\<bar>"
    using assms(1) by (simp add: nearY_def Y_TOLERANCE_def)
  then have "(5::rat) < \<bar>of_int (mathRound (f_y b)) - of_int (mathRound (f_y a))\<bar>"
    by (metis of_int_abs of_int_diff of_int_less_iff of_int_numeral)
  then have "3 < \<bar>f_y a - f_y b\<bar>"
    using mathRound_bounds[of "f_y a"] mathRound_bounds[of "f_y b"] by linarith
  then show ?thesis using assms(2) by (auto simp: compareItems_def Let_def)
qed

text \<open>
  Claim C2, amended. The row reconstructor sorts the fragments of a page and cuts the
  sorted sequence \<open>s\<close>, whatever order the sort has left it in, into rows: the rows are
  consecutive pieces of \<open>s\<close>, so every fragment of the page is in exactly one row; no row
  is empty; and a new row starts exactly between two neighbours of \<open>s\<close> whose rounded
  y-coordinates differ by more than 5 units (neighbours within a row differ by at most 5,
  as long as no rounded y-coordinate is the initial value -1 of \<^verbatim>\<open>lastY\<close>). Where \<open>s\<close>
  is in the order of the comparison, no fragment placed after its successor, the rows
  are in descending order of y: the first fragment of a row lies below the last fragment
  of the row before it.
\<close>

theorem rows_are_runs_of_sorted_sequence:
  "((\<forall>f \<in> set s. mathRound (f_y f) \<noteq> - 1) \<longrightarrow> (\<forall>row \<in> set (groupRows s). successively nearY row))
   \<and> concat (groupRows s) = s
   \<and> [] \<notin> set (groupRows s)
   \<and> successively (\<lambda>r1 r2. \<not> nearY (last r1) (hd r2)) (groupRows s)
   \<and> (mset s = mset items \<longrightarrow> mset (concat (groupRows s)) = mset items)
   \<and> (successively (\<lambda>a b. compareItems a b \<le> 0) s
        \<longrightarrow> successively (\<lambda>r1 r2. f_y (hd r2) < f_y (last r1)) (groupRows s))"
proof -
  have cc: "concat (groupRows s) = s"
    by (simp add: groupRows_def groupLoop_concat)
  have ne: "[] \<notin> set (groupRows s)"
    unfolding groupRows_def by (rule groupLoop_nonempty) simp
  have within: "\<forall>row \<in> set (groupRows s). successively joins row"
    unfolding groupRows_def by (rule groupLoop_within) simp_all
  have members: "\<Union> (set ` set (groupRows s)) = set s"
    using cc by (metis set_concat)
  have w: "(\<forall>f \<in> set s. mathRound (f_y f) \<noteq> - 1) \<longrightarrow> (\<forall>row \<in> set (groupRows s). successively nearY row)"
  proof (intro impI ballI)
    fix row
    assume ns: "\<forall>f \<in> set s. mathRound (f_y f) \<noteq> - 1" and row: "row \<in> set (groupRows s)"
    then have "set row \<subseteq> set s" using members by auto
    then have "\<And>a b. a \<in> set row \<Longrightarrow> b \<in> set row \<Longrightarrow> joins a b \<Longrightarrow> nearY a b"
      using ns by (auto simp: joins_def nearY_def)
    then show "successively nearY row"
      using within row successively_mono[of joins row nearY] by blast
  qed
  have bl: "successively (\<lambda>r1 r2. \<not> joins (last r1) (hd r2)) (groupRows s)"
    unfolding groupRows_def by (rule groupLoop_boundaries) simp_all
  have b: "successively (\<lambda>r1 r2. \<not> nearY (last r1) (hd r2)) (groupRows s)"
    using bl by (rule successively_mono) (auto simp: joins_def nearY_def)
  have desc: "successively (\<lambda>r1 r2. f_y (hd r2) < f_y (last r1)) (groupRows s)"
    if sorted: "successively (\<lambda>a b. compareItems a b \<le> 0) s"
  proof -
    have ord: "successively (\<lambda>r1 r2. compareItems (last r1) (hd r2) \<le> 0) (groupRows s)"
      using successively_concat[OF ne, of "\<lambda>a b. compareItems a b \<le> 0"] sorted cc by simp
    show ?thesis
      using successively_conj[OF b ord]
      by (rule successively_mono) (auto intro: far_and_ordered)
  qed
  have perm: "mset s = mset items \<longrightarrow> mset (concat (groupRows s)) = mset items"
    by (simp add: cc)
  show ?thesis using w cc ne b perm desc by blast
qed

lemma splitPage_facts:
  "list_all (\<lambda>f. mathRound (f_y f) \<noteq> - 1) splitPage
   \<and> successively (\<lambda>a b. compareItems a b \<le> 0) splitPage
   \<and> sortItems [splitPage ! 2, splitPage ! 0, splitPage ! 1] = splitPage
   \<and> groupRows splitPage = [[splitPage ! 0], [splitPage ! 1, splitPage ! 2]]"
  by code_simp

theorem rows_are_runs_of_sorted_sequence_witness:
  "list_all (\<lambda>f. mathRound (f_y f) \<noteq> - 1) splitPage
   \<and> successively (\<lambda>a b. compareItems a b \<le> 0) splitPage
   \<and> mset splitPage = mset [splitPage ! 2, splitPage ! 0, splitPage ! 1]
   \<and> groupRows splitPage = [[splitPage ! 0], [splitPage ! 1, splitPage ! 2]]
   \<and> list_all (successively nearY) (groupRows splitPage)
   \<and> successively (\<lambda>r1 r2. \<not> nearY (last r1) (hd r2)) (groupRows splitPage)
   \<and> mset (concat (groupRows splitPage)) = mset [splitPage ! 2, splitPage ! 0, splitPage ! 1]
   \<and> successively (\<lambda>r1 r2. f_y (hd r2) < f_y (last r1)) (groupRows splitPage)"
proof -
  have perm: "mset splitPage = mset [splitPage ! 2, splitPage ! 0, splitPage ! 1]"
    by (simp add: splitPage_def)
  show ?thesis
    using splitPage_facts perm
      rows_are_runs_of_sorted_sequence[of splitPage "[splitPage ! 2, splitPage ! 0, splitPage ! 1]"]
    unfolding list_all_iff by blast
qed

text \<open>
  Claim C2 as stated fails in both directions. On \<open>chainPage\<close> the fragments at y = 10
  and y = 2 are 8 units apart and share a row, chained through the fragment at y = 6. On
  \<open>splitPage\<close> the fragments at y = 10 and y = 5 are 5 units apart and lie in different
  rows, because the fragment at y = 4 sorts between them. On both pages the comparison
  orders the three fragments strictly, the same way for every pair.
\<close>

theorem rows_claim_counterexample:
  "extractRows chainPage = [chainPage]
   \<and> 5 < \<bar>f_y (chainPage ! 0) - f_y (chainPage ! 2)\<bar>
   \<and> sameRow (extractRows chainPage) (chainPage ! 0) (chainPage ! 2)
   \<and> extractRows splitPage = [[splitPage ! 0], [splitPage ! 1, splitPage ! 2]]
   \<and> \<bar>f_y (splitPage ! 0) - f_y (splitPage ! 2)\<bar> \<le> 5
   \<and> \<not> sameRow (extractRows splitPage) (splitPage ! 0) (splitPage ! 2)
   \<and> compareItems (chainPage ! 0) (chainPage ! 1) < 0
   \<and> compareItems (chainPage ! 1) (chainPage ! 2) < 0
   \<and> compareItems (chainPage ! 0) (chainPage ! 2) < 0
   \<and> compareItems (splitPage ! 0) (splitPage ! 1) < 0
   \<and> compareItems (splitPage ! 1) (splitPage ! 2) < 0
   \<and> compareItems (splitPage ! 0) (splitPage ! 2) < 0"
  by code_simp

text \<open>The initial value -1 of \<^verbatim>\<open>lastY\<close> is also a possible rounded y-coordinate: after a
  fragment at that height the next fragment joins the row however far away it is.\<close>

lemma lastY_initial_value_collides:
  "extractRows [\<lparr>f_str = ''a'', f_x = 0, f_y = - 1\<rparr>, \<lparr>f_str = ''b'', f_x = 0, f_y = - 100\<rparr>]
     = [[\<lparr>f_str = ''a'', f_x = 0, f_y = - 1\<rparr>, \<lparr>f_str = ''b'', f_x = 0, f_y = - 100\<rparr>]]"
  by code_simp

text \<open>Descent holds between the end of a row and the start of the next, not between
  all their fragments: \<open>overlapPage\<close> is in the order of the comparison, for every pair
  of its fragments, and the last fragment of its second row lies above the first
  fragment of its first row.\<close>

lemma later_row_can_reach_above_earlier_row:
  "sorted_wrt (\<lambda>a b. compareItems a b < 0) overlapPage
   \<and> sortItems (rev overlapPage) = overlapPage
   \<and> extractRows overlapPage = [[overlapPage ! 0, overlapPage ! 1], [overlapPage ! 2, overlapPage ! 3]]
   \<and> f_y (overlapPage ! 0) < f_y (overlapPage ! 3)"
  by code_simp

text \<open>Without the order of the comparison there is no descent. On \<open>cyclicPage\<close> the
  comparison puts C before A, A before B and B before C, so no sequence of the three
  agrees with it on every pair; the rows depend on the sequence the sort leaves, and for
  the page as it stands, which is not in the order of the comparison, they ascend.\<close>

lemma rows_depend_on_the_sorted_order:
  "compareItems (cyclicPage ! 1) (cyclicPage ! 0) < 0
   \<and> compareItems (cyclicPage ! 0) (cyclicPage ! 2) < 0
   \<and> compareItems (cyclicPage ! 2) (cyclicPage ! 1) < 0
   \<and> groupRows [cyclicPage ! 2, cyclicPage ! 1, cyclicPage ! 0]
       = [[cyclicPage ! 2, cyclicPage ! 1], [cyclicPage ! 0]]
   \<and> groupRows [cyclicPage ! 0, cyclicPage ! 2, cyclicPage ! 1]
       = [[cyclicPage ! 0, cyclicPage ! 2, cyclicPage ! 1]]
   \<and> \<not> successively (\<lambda>a b. compareItems a b \<le> 0) cyclicPage
   \<and> groupRows cyclicPage = [[cyclicPage ! 0], [cyclicPage ! 1, cyclicPage ! 2]]
   \<and> f_y (cyclicPage ! 0) < f_y (cyclicPage ! 1)"
  by code_simp


subsection \<open>The end-to-end scenario\<close>

lemma rows_netflixRow: "extractRows (netflixRow y) = [netflixRow y]"
  by (simp add: extractRows_def sortItems_def netflixRow_def compareItems_def groupRows_def
        Let_def Y_TOLERANCE_def)

lemma segment_netflixRow:
  "segmentRows [netflixRow y] =
     [\<lparr>p_date = ''15-03-2024'', p_description = ''UPI/NETFLIX/123'', p_amount = 199, p_type = DR\<rparr>]"
  by code_simp

lemma convert_netflix:
  "convertToTransactionInterface
     [\<lparr>p_date = ''15-03-2024'', p_description = ''UPI/NETFLIX/123'', p_amount = 199, p_type = DR\<rparr>]
     accountNumber ''ICICI'' =
     Inr [\<lparr>t_id = ''icici_'' @ accountNumber @ ''_15032024_0'',
           t_date = noonUTC 2024 3 15,
           t_amount = 199, t_description = ''UPI/NETFLIX/123'', t_type = Debit,
           t_category = ''Entertainment'', t_subcategory = Some ''Streaming Services'',
           t_merchant = ''Netflix'', t_account = accountNumber, t_paymentMethod = ''UPI'',
           t_isRecurring = True, t_tags = [''entertainment'', ''upi''], t_notes = None,
           t_isVerified = False\<rparr>]"
  by code_simp

text \<open>
  Claim C4. A page whose fragments are the four texts 15-03-2024 (x = 0), UPI/NETFLIX/123
  (x = 40), 199.00 (x = 200) and DR (x = 260) at one height forms a single row, and
  segmentation followed by the rule-based conversion yields exactly one transaction: date
  15 March 2024, amount 199, type debit, merchant Netflix, category Entertainment with
  subcategory Streaming Services, recurring. This holds at every height \<open>y\<close> and for
  every account number.
\<close>

theorem netflix_end_to_end:
  "extractRows (netflixRow y) = [netflixRow y]
   \<and> extractTransactionsFromPage (netflixRow y) =
       [\<lparr>p_date = ''15-03-2024'', p_description = ''UPI/NETFLIX/123'', p_amount = 199, p_type = DR\<rparr>]
   \<and> parsePage (netflixRow y) accountNumber =
       Inr [\<lparr>t_id = ''icici_'' @ accountNumber @ ''_15032024_0'',
             t_date = noonUTC 2024 3 15,
             t_amount = 199, t_description = ''UPI/NETFLIX/123'', t_type = Debit,
             t_category = ''Entertainment'', t_subcategory = Some ''Streaming Services'',
             t_merchant = ''Netflix'', t_account = accountNumber, t_paymentMethod = ''UPI'',
             t_isRecurring = True, t_tags = [''entertainment'', ''upi''], t_notes = None,
             t_isVerified = False\<rparr>]"
  by (simp add: parsePage_def extractTransactionsFromPage_def rows_netflixRow segment_netflixRow
        convert_netflix)

theorem netflix_end_to_end_witness:
  "parsePage (netflixRow 700) ''000123'' =
       Inr [\<lparr>t_id = ''icici_000123_15032024_0'',
             t_date = noonUTC 2024 3 15,
             t_amount = 199, t_description = ''UPI/NETFLIX/123'', t_type = Debit,
             t_category = ''Entertainment'', t_subcategory = Some ''Streaming Services'',
             t_merchant = ''Netflix'', t_account = ''000123'', t_paymentMethod = ''UPI'',
             t_isRecurring = True, t_tags = [''entertainment'', ''upi''], t_notes = None,
             t_isVerified = False\<rparr>]"
  using netflix_end_to_end[of 700 "''000123''"] by simp

subsection \<open>The merchant extractor\<close>

text \<open>The candidate the extractor selects is the first, in the order of insertion, of
  those with the highest score.\<close>

lemma hd_insertCandidate:
  "hd (insertCandidate a xs) = (if xs = [] \<or> cd_score (hd xs) \<le> cd_score a then a else hd xs)"
  by (cases xs) auto

lemma best_candidate:
  "cs \<noteq> [] \<Longrightarrow>
   find (\<lambda>c. \<forall>d \<in> set cs. cd_score d \<le> cd_score c) cs = Some (hd (sortCandidates cs))"
proof (induction cs)
  case Nil
  then show ?case by simp
next
  case (Cons a cs)
  show ?case
  proof (cases "cs = []")
    case True
    then show ?thesis by (simp add: sortCandidates_def)
  next
    case False
    let ?h = "hd (sortCandidates cs)"
    have ih: "find (\<lambda>c. \<forall>d \<in> set cs. cd_score d \<le> cd_score c) cs = Some ?h"
      using Cons.IH False by simp
    then have hin: "?h \<in> set cs" and hmax: "\<forall>d \<in> set cs. cd_score d \<le> cd_score ?h"
      by (auto simp: find_Some_iff)
    have ne: "sortCandidates cs \<noteq> []"
      using False unfolding sortCandidates_def by (cases cs) (auto, metis insertCandidate.elims list.distinct(1))
    have hd: "hd (sortCandidates (a # cs)) = (if cd_score ?h \<le> cd_score a then a else ?h)"
      using ne by (simp add: sortCandidates_def hd_insertCandidate)
    show ?thesis
    proof (cases "cd_score ?h \<le> cd_score a")
      case True
      then have "\<forall>d \<in> set (a # cs). cd_score d \<le> cd_score a"
        using hmax by auto
      then show ?thesis using True hd by simp
    next
      case lower: False
      then have na: "\<not> (\<forall>d \<in> set (a # cs). cd_score d \<le> cd_score a)"
        using hin by auto
      have "find (\<lambda>c. \<forall>d \<in> set (a # cs). cd_score d \<le> cd_score c) cs
              = find (\<lambda>c. \<forall>d \<in> set cs. cd_score d \<le> cd_score c) cs"
      proof (rule find_cong)
        fix c assume "c \<in> set cs"
        show "(\<forall>d \<in> set (a # cs). cd_score d \<le> cd_score c) = (\<forall>d \<in> set cs. cd_score d \<le> cd_score c)"
          using lower hin by auto
      qed simp
      moreover have "find (\<lambda>c. \<forall>d \<in> set (a # cs). cd_score d \<le> cd_score c) (a # cs)
              = find (\<lambda>c. \<forall>d \<in> set (a # cs). cd_score d \<le> cd_score c) cs"
        using na by (simp only: find.simps if_False)
      ultimately show ?thesis using lower hd ih by (simp only: if_False)
    qed
  qed
qed


subsection \<open>The pipeline: fusion and fallback\<close>

lemma source_create: "source (createMLConfidence s src) = src"
  by (simp add: createMLConfidence_def)

lemma score_create: "0 \<le> score (createMLConfidence s src) \<and> score (createMLConfidence s src) \<le> 1"
  by (simp add: createMLConfidence_def)

lemma merchant_score_range:
  "0 \<le> score (mp_confidence (extractMerchantWithFallback cfg svc d a))
   \<and> score (mp_confidence (extractMerchantWithFallback cfg svc d a)) \<le> 1"
  using score_create
  by (auto simp: extractMerchantWithFallback_def fallbackMerchantExtraction_def Let_def
           split: sum.splits option.splits if_splits)

lemma category_score_range:
  "0 \<le> score (cp_confidence (classifyWithFallback cfg svc p d a))
   \<and> score (cp_confidence (classifyWithFallback cfg svc p d a)) \<le> 1"
  using score_create
  by (auto simp: classifyWithFallback_def fallbackClassification_def Let_def
           split: sum.splits option.splits if_splits)

lemma weighted_average:
  assumes "0 \<le> score m" and "score m \<le> 1" and "0 \<le> score c" and "score c \<le> 1"
  shows "score (calculateOverallConfidence m c) = score m * (4 / 10) + score c * (6 / 10)"
proof -
  have lo: "0 \<le> score m * (4 / 10) + score c * (6 / 10)"
    using assms by simp
  have "score m * (4 / 10) \<le> 4 / 10" and "score c * (6 / 10) \<le> 6 / 10"
    using assms by simp_all
  then have hi: "score m * (4 / 10) + score c * (6 / 10) \<le> 1"
    by linarith
  show ?thesis
    using lo hi by (simp add: calculateOverallConfidence_def createMLConfidence_def Let_def)
qed

lemma fallbackMerchant_source: "source (mp_confidence (fallbackMerchantExtraction d)) = Rules"
  by (simp add: fallbackMerchantExtraction_def Let_def source_create)

lemma fallbackClassification_source: "source (cp_confidence (fallbackClassification d a)) = Rules"
  by (simp add: fallbackClassification_def Let_def source_create)

lemma merchant_source: "source (mp_confidence (extractMerchantWithFallback cfg svc d a)) \<in> {Ml, Rules}"
  by (auto simp: extractMerchantWithFallback_def Let_def source_create fallbackMerchant_source
           split: sum.splits option.splits if_splits)

lemma classify_source_when_throwing:
  "isl (svc_classify svc p) \<Longrightarrow> source (cp_confidence (classifyWithFallback cfg svc p d a)) = Rules"
  by (auto simp: classifyWithFallback_def Let_def source_create fallbackClassification_source
           split: sum.splits)

lemma overall_source:
  "source (calculateOverallConfidence m c) =
     (if source m = Ml \<and> source c = Ml then Ml
      else if source m = Rules \<and> source c = Rules then Rules else Hybrid)"
  by (simp add: calculateOverallConfidence_def Let_def source_create)

lemma fallbackToRules_sources:
  "source (e_confidence (fallbackToRules d a k)) = Rules
   \<and> source (cp_confidence (e_category (fallbackToRules d a k))) = Rules
   \<and> source (mp_confidence (e_merchant (fallbackToRules d a k))) = Rules"
  by (simp add: fallbackToRules_def Let_def source_create fallbackMerchant_source fallbackClassification_source)

lemma enrich_returns: "\<exists>r. enrichTransaction cfg svc d a k = Inr r"
  by (simp add: enrichTransaction_def split: sum.splits)

lemma enrich_cases:
  "enrichTransaction cfg svc d a k = Inr (fallbackToRules d a k)
   \<or> (\<exists>p. svc_preprocess svc d a k = Inr p
        \<and> (\<exists>r. enrichTransaction cfg svc d a k = Inr r
             \<and> e_category r = classifyWithFallback cfg svc p d a
             \<and> e_merchant r = extractMerchantWithFallback cfg svc d a
             \<and> e_confidence r = calculateOverallConfidence (mp_confidence (extractMerchantWithFallback cfg svc d a))
                                   (cp_confidence (classifyWithFallback cfg svc p d a))))"
  by (auto simp: enrichTransaction_def enrichBody_def Let_def split: sum.splits)

lemma enrich_main:
  assumes "isReady svc" and "svc_preprocess svc d a k = Inr p"
  shows "\<exists>r. enrichTransaction cfg svc d a k = Inr r
           \<and> e_category r = classifyWithFallback cfg svc p d a
           \<and> e_merchant r = extractMerchantWithFallback cfg svc d a
           \<and> e_confidence r = calculateOverallConfidence (mp_confidence (e_merchant r)) (cp_confidence (e_category r))"
  using assms by (simp add: enrichTransaction_def enrichBody_def Let_def)

text \<open>
  Claim C5. For every pair of component confidences (scores between 0 and 1, the range
  the type of a confidence documents and \<open>createMLConfidence\<close> enforces), the fused
  score is the merchant score times 0.4 plus the category score times 0.6 (for scores
  of any size it is that sum, cut to the range from 0 to 1); the fused
  source is \<open>Ml\<close> exactly when both sources are \<open>Ml\<close>, \<open>Rules\<close> exactly when both are
  \<open>Rules\<close>, and \<open>Hybrid\<close> in every other case. Whenever the pipeline is ready and the
  preprocessor returns, this is the confidence of the enrichment, fused from the
  confidences of its merchant and its category.
\<close>

theorem fused_confidence:
  "(0 \<le> score m \<and> score m \<le> 1 \<and> 0 \<le> score c \<and> score c \<le> 1
      \<longrightarrow> score (calculateOverallConfidence m c) = score m * (4 / 10) + score c * (6 / 10))
   \<and> score (calculateOverallConfidence m c) = max 0 (min 1 (score m * (4 / 10) + score c * (6 / 10)))
   \<and> (source (calculateOverallConfidence m c) = Ml \<longleftrightarrow> source m = Ml \<and> source c = Ml)
   \<and> (source (calculateOverallConfidence m c) = Rules \<longleftrightarrow> source m = Rules \<and> source c = Rules)
   \<and> (source (calculateOverallConfidence m c) = Hybrid \<longleftrightarrow>
         \<not> (source m = Ml \<and> source c = Ml) \<and> \<not> (source m = Rules \<and> source c = Rules))
   \<and> (isReady svc \<and> svc_preprocess svc d a k = Inr p \<longrightarrow>
        (\<exists>r. enrichTransaction cfg svc d a k = Inr r
           \<and> e_confidence r = calculateOverallConfidence (mp_confidence (e_merchant r)) (cp_confidence (e_category r))
           \<and> score (e_confidence r)
               = score (mp_confidence (e_merchant r)) * (4 / 10) + score (cp_confidence (e_category r)) * (6 / 10)))"
proof -
  have pipeline: "isReady svc \<and> svc_preprocess svc d a k = Inr p \<longrightarrow>
        (\<exists>r. enrichTransaction cfg svc d a k = Inr r
           \<and> e_confidence r = calculateOverallConfidence (mp_confidence (e_merchant r)) (cp_confidence (e_category r))
           \<and> score (e_confidence r)
               = score (mp_confidence (e_merchant r)) * (4 / 10) + score (cp_confidence (e_category r)) * (6 / 10))"
  proof
    assume "isReady svc \<and> svc_preprocess svc d a k = Inr p"
    then obtain r where r: "enrichTransaction cfg svc d a k = Inr r"
      and c: "e_category r = classifyWithFallback cfg svc p d a"
      and m: "e_merchant r = extractMerchantWithFallback cfg svc d a"
      and o: "e_confidence r = calculateOverallConfidence (mp_confidence (e_merchant r)) (cp_confidence (e_category r))"
      using enrich_main[of svc d a k p cfg] by auto
    have "score (calculateOverallConfidence (mp_confidence (e_merchant r)) (cp_confidence (e_category r)))
            = score (mp_confidence (e_merchant r)) * (4 / 10) + score (cp_confidence (e_category r)) * (6 / 10)"
      unfolding c m using merchant_score_range[of cfg svc d a] category_score_range[of cfg svc p d a]
      by (intro weighted_average) simp_all
    then show "\<exists>r. enrichTransaction cfg svc d a k = Inr r
           \<and> e_confidence r = calculateOverallConfidence (mp_confidence (e_merchant r)) (cp_confidence (e_category r))
           \<and> score (e_confidence r)
               = score (mp_confidence (e_merchant r)) * (4 / 10) + score (cp_confidence (e_category r)) * (6 / 10)"
      using r o by auto
  qed
  have clamped: "score (calculateOverallConfidence m c) = max 0 (min 1 (score m * (4 / 10) + score c * (6 / 10)))"
    by (simp add: calculateOverallConfidence_def createMLConfidence_def Let_def)
  show ?thesis
    using weighted_average[of m c] pipeline clamped by (simp add: overall_source)
qed

lemma netflix_enrichment_scores:
  "isReady forcedFailureServices
   \<and> (case enrichTransaction DEFAULT_ML_CONFIG forcedFailureServices ''UPI/NETFLIX/123'' 199 Debit of
        Inl e \<Rightarrow> False
      | Inr r \<Rightarrow> mp_confidence (e_merchant r) = \<lparr>score = 95 / 100, source = Ml\<rparr>
           \<and> cp_confidence (e_category r) = \<lparr>score = 7 / 10, source = Rules\<rparr>)"
  by code_simp

theorem fused_confidence_witness:
  "score (calculateOverallConfidence \<lparr>score = 9 / 10, source = Ml\<rparr> \<lparr>score = 4 / 10, source = Rules\<rparr>)
     = 9 / 10 * (4 / 10) + 4 / 10 * (6 / 10)
   \<and> source (calculateOverallConfidence \<lparr>score = 9 / 10, source = Ml\<rparr> \<lparr>score = 4 / 10, source = Rules\<rparr>)
     = Hybrid
   \<and> (case enrichTransaction DEFAULT_ML_CONFIG forcedFailureServices ''UPI/NETFLIX/123'' 199 Debit of
        Inl e \<Rightarrow> False
      | Inr r \<Rightarrow> e_confidence r = \<lparr>score = 95 / 100 * (4 / 10) + 7 / 10 * (6 / 10), source = Hybrid\<rparr>)"
proof -
  obtain p where p: "svc_preprocess forcedFailureServices ''UPI/NETFLIX/123'' 199 Debit = Inr p"
    by (simp add: forcedFailureServices_def plainPreprocess_def)
  have ready: "isReady forcedFailureServices"
    using netflix_enrichment_scores by simp
  from fused_confidence[of "\<lparr>score = 9 / 10, source = Ml\<rparr>" "\<lparr>score = 4 / 10, source = Rules\<rparr>"
      forcedFailureServices "''UPI/NETFLIX/123''" 199 Debit p DEFAULT_ML_CONFIG] p ready
    netflix_enrichment_scores
  show ?thesis
    by (auto simp: overall_source split: sum.splits intro!: MLConfidence.equality)
qed

text \<open>
  Claim C6, amended. \<open>enrichTransaction\<close> returns an enrichment for every input and
  every behaviour of the three services; no exception leaves it. If the classifier
  throws on the preprocessed transaction of the call, the category of the result comes
  from the rule path (its confidence has the source \<open>Rules\<close>), and the fused confidence
  has the source \<open>Rules\<close> exactly when the merchant also came from the rule path and
  \<open>Hybrid\<close> exactly when the merchant came from the extractor; it is never \<open>Ml\<close>.
\<close>

theorem classifier_failure_falls_back:
  "(\<exists>r. enrichTransaction cfg svc description amount kind = Inr r)
   \<and> ((\<forall>p. svc_preprocess svc description amount kind = Inr p \<longrightarrow> isl (svc_classify svc p)) \<longrightarrow>
        (\<exists>r. enrichTransaction cfg svc description amount kind = Inr r
           \<and> source (cp_confidence (e_category r)) = Rules
           \<and> source (e_confidence r) \<noteq> Ml
           \<and> (source (e_confidence r) = Rules \<longleftrightarrow> source (mp_confidence (e_merchant r)) = Rules)
           \<and> (source (e_confidence r) = Hybrid \<longleftrightarrow> source (mp_confidence (e_merchant r)) = Ml)))"
proof (intro conjI impI)
  show "\<exists>r. enrichTransaction cfg svc description amount kind = Inr r"
    by (rule enrich_returns)
next
  assume throws: "\<forall>p. svc_preprocess svc description amount kind = Inr p \<longrightarrow> isl (svc_classify svc p)"
  from enrich_cases[of cfg svc description amount kind]
  show "\<exists>r. enrichTransaction cfg svc description amount kind = Inr r
           \<and> source (cp_confidence (e_category r)) = Rules
           \<and> source (e_confidence r) \<noteq> Ml
           \<and> (source (e_confidence r) = Rules \<longleftrightarrow> source (mp_confidence (e_merchant r)) = Rules)
           \<and> (source (e_confidence r) = Hybrid \<longleftrightarrow> source (mp_confidence (e_merchant r)) = Ml)"
  proof
    assume "enrichTransaction cfg svc description amount kind = Inr (fallbackToRules description amount kind)"
    then show ?thesis using fallbackToRules_sources[of description amount kind] by simp
  next
    assume "\<exists>p. svc_preprocess svc description amount kind = Inr p
        \<and> (\<exists>r. enrichTransaction cfg svc description amount kind = Inr r
             \<and> e_category r = classifyWithFallback cfg svc p description amount
             \<and> e_merchant r = extractMerchantWithFallback cfg svc description amount
             \<and> e_confidence r = calculateOverallConfidence (mp_confidence (extractMerchantWithFallback cfg svc description amount))
                                   (cp_confidence (classifyWithFallback cfg svc p description amount)))"
    then obtain p r where p: "svc_preprocess svc description amount kind = Inr p"
      and r: "enrichTransaction cfg svc description amount kind = Inr r"
      and c: "e_category r = classifyWithFallback cfg svc p description amount"
      and m: "e_merchant r = extractMerchantWithFallback cfg svc description amount"
      and o: "e_confidence r = calculateOverallConfidence (mp_confidence (e_merchant r)) (cp_confidence (e_category r))"
      by auto
    have "isl (svc_classify svc p)"
      using throws p by simp
    then have cs: "source (cp_confidence (e_category r)) = Rules"
      using c classify_source_when_throwing by simp
    have ms: "source (mp_confidence (e_merchant r)) \<in> {Ml, Rules}"
      using m merchant_source by simp
    show ?thesis using r cs ms o by (auto simp: overall_source)
  qed
qed

text \<open>A description without a run of capital letters, in which the recogniser finds no
  entity: neither the patterns nor the candidates give the extractor a merchant, and the
  merchant comes from the rule path.\<close>

lemma cash_deposit_extraction:
  "rx_match_all capitalizedPattern ''cash deposit'' = []
   \<and> extractWithPatterns ''cash deposit''
       = \<lparr>xr_merchant = ''Unknown'', xr_normalizedMerchant = ''Unknown'',
          xr_confidence = 1 / 10, xr_extractionMethod = FallbackMethod\<rparr>
   \<and> extractWithML noEntities ''cash deposit'' 500
       = Inr \<lparr>xr_merchant = ''Unknown'', xr_normalizedMerchant = ''Unknown'',
              xr_confidence = 2 / 10, xr_extractionMethod = MlMethod\<rparr>
   \<and> enhancedExtractMerchant noEntities ''cash deposit'' 500
       = Inr \<lparr>xr_merchant = ''Unknown'', xr_normalizedMerchant = ''Unknown'',
              xr_confidence = 1 / 10, xr_extractionMethod = FallbackMethod\<rparr>"
  by code_simp

lemma cash_deposit_enrichment:
  "(case enrichTransaction DEFAULT_ML_CONFIG forcedFailureServices ''cash deposit'' 500 Credit of
      Inl e \<Rightarrow> False
    | Inr r \<Rightarrow> source (mp_confidence (e_merchant r)) = Rules)"
  by code_simp

theorem classifier_failure_falls_back_witness:
  "(case enrichTransaction DEFAULT_ML_CONFIG forcedFailureServices ''cash deposit'' 500 Credit of
      Inl e \<Rightarrow> False
    | Inr r \<Rightarrow> source (mp_confidence (e_merchant r)) = Rules
         \<and> source (cp_confidence (e_category r)) = Rules
         \<and> source (e_confidence r) = Rules)"
proof -
  have "\<forall>p. svc_preprocess forcedFailureServices ''cash deposit'' 500 Credit = Inr p
          \<longrightarrow> isl (svc_classify forcedFailureServices p)"
    by (simp add: forcedFailureServices_def throwingClassifier_def)
  then show ?thesis
    using cash_deposit_enrichment
      classifier_failure_falls_back[of DEFAULT_ML_CONFIG forcedFailureServices "''cash deposit''" 500 Credit]
    by (auto split: sum.splits)
qed

text \<open>The same description in capital letters is a run of capital letters, hence a
  candidate: it scores 0.4 + 0.2 + 0.1, the extractor returns it, the pipeline accepts it
  at the threshold 0.7, and with the classifier throwing the fused source is \<open>Hybrid\<close>.\<close>

lemma capital_run_is_a_candidate:
  "rx_match_all capitalizedPattern ''CASH DEPOSIT'' = [''CASH DEPOSIT'']
   \<and> scoreMerchantCandidate ''CASH DEPOSIT'' CapitalizedType = 7 / 10
   \<and> enhancedExtractMerchant noEntities ''CASH DEPOSIT'' 500
       = Inr \<lparr>xr_merchant = ''CASH DEPOSIT'', xr_normalizedMerchant = ''CASH DEPOSIT'',
              xr_confidence = 7 / 10, xr_extractionMethod = MlMethod\<rparr>
   \<and> (case enrichTransaction DEFAULT_ML_CONFIG forcedFailureServices ''CASH DEPOSIT'' 500 Credit of
         Inl e \<Rightarrow> False
       | Inr r \<Rightarrow> mp_merchant (e_merchant r) = ''CASH DEPOSIT''
            \<and> mp_confidence (e_merchant r) = \<lparr>score = 7 / 10, source = Ml\<rparr>
            \<and> source (cp_confidence (e_category r)) = Rules
            \<and> source (e_confidence r) = Hybrid)"
  by code_simp

text \<open>
  Claim C6 as stated fails: with the classifier throwing, the description
  UPI/NETFLIX/123 still gets its merchant from the extractor (pattern confidence 0.95,
  above the threshold 0.7), the category from the rules, and the fused confidence has the
  source \<open>Hybrid\<close>, not \<open>Rules\<close>.
\<close>

theorem classifier_failure_can_be_hybrid:
  "(case enrichTransaction DEFAULT_ML_CONFIG forcedFailureServices ''UPI/NETFLIX/123'' 199 Debit of
      Inl e \<Rightarrow> False
    | Inr r \<Rightarrow>
        source (cp_confidence (e_category r)) = Rules
        \<and> mp_confidence (e_merchant r) = \<lparr>score = 95 / 100, source = Ml\<rparr>
        \<and> source (e_confidence r) = Hybrid
        \<and> source (e_confidence r) \<noteq> Rules)"
  by code_simp

end
